theory Spec2Isabelle
  imports Complex_Main "HOL-Library.Monad_Syntax"
begin

section \<open>Tensors\<close>

text \<open>
  The models of \<^verbatim>\<open>models.py\<close> compute on two-dimensional float tensors. A tensor of
  shape \<open>[N, d]\<close> is a record of its column count and its list of \<open>N\<close> rows, so that the
  shapes \<open>[0, d]\<close> and \<open>[N, 0]\<close> are told apart as the library tells them apart. Scalars are real
  numbers: the arithmetic of the library's floats is idealised, rounding is not modelled.
  A raised exception is the value \<open>None\<close>. The \<^verbatim>\<open>device\<close> argument moves storage and
  changes no value; it has no counterpart here.
\<close>

type_synonym vec = "real list"

record tensor =
  cols :: nat
  rws :: "vec list"

text \<open>\<^verbatim>\<open>x.size(0)\<close>; \<^verbatim>\<open>x.size(1)\<close> is the field \<open>cols\<close>.\<close>

definition size0 :: "tensor \<Rightarrow> nat" where
  "size0 T = length (rws T)"

text \<open>Every row has the declared number of columns: what a tensor of the library always is.\<close>

definition wf_tensor :: "tensor \<Rightarrow> bool" where
  "wf_tensor T = list_all (\<lambda>r. length r = cols T) (rws T)"

definition ones :: "nat \<Rightarrow> nat \<Rightarrow> tensor" where
  "ones n c = \<lparr>cols = c, rws = replicate n (replicate c 1)\<rparr>"

definition vadd :: "vec \<Rightarrow> vec \<Rightarrow> vec" where
  "vadd a b = map2 (+) a b"

definition vsub :: "vec \<Rightarrow> vec \<Rightarrow> vec" where
  "vsub a b = map2 (-) a b"

definition vmul :: "vec \<Rightarrow> vec \<Rightarrow> vec" where
  "vmul a b = map2 (*) a b"

definition dot :: "vec \<Rightarrow> vec \<Rightarrow> real" where
  "dot a b = sum_list (map2 (*) a b)"

definition column :: "tensor \<Rightarrow> nat \<Rightarrow> vec" where
  "column T j = map (\<lambda>r. r ! j) (rws T)"

text \<open>\<^verbatim>\<open>x.t()\<close>: the transpose of a 2-D tensor.\<close>

definition tensor_t :: "tensor \<Rightarrow> tensor" where
  "tensor_t T = \<lparr>cols = size0 T, rws = map (column T) [0..<cols T]\<rparr>"

text \<open>\<^verbatim>\<open>torch.mm(A, B)\<close>: raises unless the inner dimensions agree.\<close>

definition mm :: "tensor \<Rightarrow> tensor \<Rightarrow> tensor option" where
  "mm A B =
     (if cols A = size0 B
      then Some \<lparr>cols = cols B,
                 rws = map (\<lambda>a. map (\<lambda>j. dot a (column B j)) [0..<cols B]) (rws A)\<rparr>
      else None)"

text \<open>
  \<^verbatim>\<open>F.softmax(T, dim)\<close> on a 2-D tensor: \<open>dim = 1\<close> normalises every row, \<open>dim = 0\<close> every
  column; another \<open>dim\<close> is out of range for two dimensions. The entries written here are
  the exact quotients \<open>exp v / \<Sum> exp\<close>, which the library computes in 32-bit floating point:
  there a row sums to 1 only up to rounding, and its entries are NaN once a score overflows.
  The values of this function are therefore an idealisation, as all arithmetic here is, and
  no property below is drawn from them: what is proved of attention matrices is their shape
  and their place in the data flow.
\<close>

definition softmax_vec :: "vec \<Rightarrow> vec" where
  "softmax_vec r = map (\<lambda>v. exp v / sum_list (map exp r)) r"

definition softmax :: "tensor \<Rightarrow> nat \<Rightarrow> tensor option" where
  "softmax T dm =
     (if dm = 1 then Some \<lparr>cols = cols T, rws = map softmax_vec (rws T)\<rparr>
      else if dm = 0
      then Some \<lparr>cols = cols T,
                 rws = map (\<lambda>r. map (\<lambda>j. exp (r ! j) / sum_list (map exp (column T j)))
                                     [0..<cols T]) (rws T)\<rparr>
      else None)"

text \<open>
  \<^verbatim>\<open>A - B\<close> for tensors of one shape, the only case \<^verbatim>\<open>forward\<close> reaches (the
  library's broadcasting of unequal shapes is not modelled: unequal shapes are \<open>None\<close>).
\<close>

definition sub :: "tensor \<Rightarrow> tensor \<Rightarrow> tensor option" where
  "sub A B =
     (if size0 A = size0 B \<and> cols A = cols B
      then Some \<lparr>cols = cols A, rws = map2 vsub (rws A) (rws B)\<rparr>
      else None)"

text \<open>
  \<^verbatim>\<open>torch.cat(Ts, dim)\<close> of 2-D tensors: along \<open>dim = 1\<close> the row counts must agree,
  along \<open>dim = 0\<close> the column counts; an empty list raises.
\<close>

definition cat :: "tensor list \<Rightarrow> nat \<Rightarrow> tensor option" where
  "cat Ts dm =
     (case Ts of
        [] \<Rightarrow> None
      | T # _ \<Rightarrow>
          if dm = 1 then
            (if list_all (\<lambda>U. size0 U = size0 T) Ts
             then Some \<lparr>cols = sum_list (map cols Ts),
                        rws = map (\<lambda>i. concat (map (\<lambda>U. rws U ! i) Ts)) [0..<size0 T]\<rparr>
             else None)
          else if dm = 0 then
            (if list_all (\<lambda>U. cols U = cols T) Ts
             then Some \<lparr>cols = cols T, rws = concat (map rws Ts)\<rparr>
             else None)
          else None)"

text \<open>
  \<^verbatim>\<open>torch.index_select(T, dim, index)\<close>: an index below 0 or past the end raises.
\<close>

definition index_select :: "tensor \<Rightarrow> nat \<Rightarrow> int list \<Rightarrow> tensor option" where
  "index_select T dm index =
     (if dm = 0 then
        (if list_all (\<lambda>k. 0 \<le> k \<and> k < int (size0 T)) index
         then Some \<lparr>cols = cols T, rws = map (\<lambda>k. rws T ! nat k) index\<rparr>
         else None)
      else if dm = 1 then
        (if list_all (\<lambda>k. 0 \<le> k \<and> k < int (cols T)) index
         then Some \<lparr>cols = length index, rws = map (\<lambda>r. map (\<lambda>k. r ! nat k) index) (rws T)\<rparr>
         else None)
      else None)"

text \<open>
  The sum reduction of \<^verbatim>\<open>scatter\<close> along dimension 0: row \<open>e\<close> of \<open>src\<close> is added to
  row \<open>index[e]\<close> of a zero tensor with \<open>dim_size\<close> rows. It raises when \<open>index\<close> has not one
  entry per row of \<open>src\<close> or an entry is outside \<open>[0, dim_size)\<close>.
\<close>

definition scatter_step :: "int \<times> vec \<Rightarrow> vec list \<Rightarrow> vec list" where
  "scatter_step p acc = acc[nat (fst p) := vadd (acc ! nat (fst p)) (snd p)]"

definition scatter_sum :: "tensor \<Rightarrow> int list \<Rightarrow> nat \<Rightarrow> tensor option" where
  "scatter_sum src index dim_size =
     (if length index = size0 src \<and> list_all (\<lambda>k. 0 \<le> k \<and> k < int dim_size) index
      then Some \<lparr>cols = cols src,
                 rws = fold scatter_step (zip index (rws src))
                         (replicate dim_size (replicate (cols src) 0))\<rparr>
      else None)"

text \<open>\<^verbatim>\<open>F.relu\<close>, elementwise.\<close>

definition relu :: "tensor \<Rightarrow> tensor" where
  "relu T = \<lparr>cols = cols T, rws = map (map (max 0)) (rws T)\<rparr>"

section \<open>Learned modules of the library\<close>

text \<open>
  \<^verbatim>\<open>nn.Linear(in_features, out_features)\<close>: the weight has shape
  \<open>[out_features, in_features]\<close>, the bias \<open>out_features\<close> entries; a row \<open>x\<close> is mapped to
  \<open>W x + b\<close>, and an input with another column count raises.
\<close>

record Linear =
  in_features :: nat
  out_features :: nat
  weight :: tensor
  bias :: vec

definition wf_Linear :: "Linear \<Rightarrow> bool" where
  "wf_Linear L = (wf_tensor (weight L) \<and> cols (weight L) = in_features L \<and>
                  size0 (weight L) = out_features L \<and> length (bias L) = out_features L)"

definition affine :: "tensor \<Rightarrow> vec \<Rightarrow> vec \<Rightarrow> vec" where
  "affine W b x = vadd (map (dot x) (rws W)) b"

definition Linear_forward :: "Linear \<Rightarrow> tensor \<Rightarrow> tensor option" where
  "Linear_forward L X =
     (if cols X = in_features L
      then Some \<lparr>cols = out_features L, rws = map (affine (weight L) (bias L)) (rws X)\<rparr>
      else None)"

text \<open>
  \<^verbatim>\<open>nn.GRUCell(input_size, hidden_size, bias=True)\<close>. With \<open>H = hidden_size\<close>, the weights
  have shapes \<open>[3H, input_size]\<close> and \<open>[3H, H]\<close>, the biases \<open>3H\<close> entries, in the gate order
  reset, update, new. For an input row \<open>x\<close> and a hidden row \<open>h\<close>:
  \<open>r = \<sigma>(i_r + h_r)\<close>, \<open>z = \<sigma>(i_z + h_z)\<close>, \<open>n = tanh(i_n + r * h_n)\<close>,
  \<open>h' = (1 - z) * n + z * h\<close>.
\<close>

record GRUCell =
  input_size :: nat
  hidden_size :: nat
  weight_ih :: tensor
  weight_hh :: tensor
  bias_ih :: vec
  bias_hh :: vec

definition wf_GRUCell :: "GRUCell \<Rightarrow> bool" where
  "wf_GRUCell G =
     (wf_tensor (weight_ih G) \<and> cols (weight_ih G) = input_size G \<and>
      size0 (weight_ih G) = 3 * hidden_size G \<and>
      wf_tensor (weight_hh G) \<and> cols (weight_hh G) = hidden_size G \<and>
      size0 (weight_hh G) = 3 * hidden_size G \<and>
      length (bias_ih G) = 3 * hidden_size G \<and> length (bias_hh G) = 3 * hidden_size G)"

definition sigmoid :: "real \<Rightarrow> real" where
  "sigmoid v = 1 / (1 + exp (- v))"

definition gru_row :: "GRUCell \<Rightarrow> vec \<Rightarrow> vec \<Rightarrow> vec" where
  "gru_row G x h =
     (let H = hidden_size G;
          gi = affine (weight_ih G) (bias_ih G) x;
          gh = affine (weight_hh G) (bias_hh G) h;
          r = map sigmoid (vadd (take H gi) (take H gh));
          z = map sigmoid (vadd (take H (drop H gi)) (take H (drop H gh)));
          n = map tanh (vadd (drop (2 * H) gi) (vmul r (drop (2 * H) gh)))
      in vadd (vmul (map (\<lambda>v. 1 - v) z) n) (vmul z h))"

definition GRUCell_forward :: "GRUCell \<Rightarrow> tensor \<Rightarrow> tensor \<Rightarrow> tensor option" where
  "GRUCell_forward G input hx =
     (if cols input = input_size G \<and> cols hx = hidden_size G \<and> size0 input = size0 hx
      then Some \<lparr>cols = hidden_size G, rws = map2 (gru_row G) (rws input) (rws hx)\<rparr>
      else None)"

section \<open>GMNlayer\<close>

text \<open>
  An \<^verbatim>\<open>edge_index\<close> is a long tensor of shape \<open>[2, E]\<close>: it is the list of its \<open>E\<close>
  columns, the pairs (source, target). \<^verbatim>\<open>edge_index[0]\<close> is the row of the sources,
  \<^verbatim>\<open>edge_index[1]\<close> the row of the targets (only the rows 0 and 1 are ever read).
\<close>

type_synonym edge_index = "(int \<times> int) list"

definition edge_row :: "edge_index \<Rightarrow> nat \<Rightarrow> int list" where
  "edge_row edge_index k = (if k = 0 then map fst edge_index else map snd edge_index)"

text \<open>
  The layer's attributes. \<open>aggr\<close> and \<open>flow\<close> are those of the base class
  \<^verbatim>\<open>MessagePassing\<close> (\<^verbatim>\<open>flow\<close> keeps its default), as is \<open>update_args\<close>, the names of
  the extra parameters of \<^verbatim>\<open>update\<close>, of which there are none. The weights of the two
  learned modules are arguments of the constructor here.
\<close>

record GMNlayer =
  aggr :: string
  flow :: string
  out_channels :: nat
  fmessage :: Linear
  fnode :: GRUCell
  match_args :: "string list"
  special_match_args :: "(nat \<times> string) list"
  update_args :: "string list"

record GMNlayer_weights =
  fmessage_weight :: tensor
  fmessage_bias :: vec
  fnode_weight_ih :: tensor
  fnode_weight_hh :: tensor
  fnode_bias_ih :: vec
  fnode_bias_hh :: vec

definition special_args :: "string list" where
  "special_args =
     [''edge_index'', ''edge_index_i'', ''edge_index_j'', ''size'', ''size_i'', ''size_j'']"

text \<open>\<^verbatim>\<open>getargspec(self.match)[0]\<close>: the parameter names of \<^verbatim>\<open>match\<close>.\<close>

definition match_argspec :: "string list" where
  "match_argspec = [''self'', ''edge_index_i'', ''x_i'', ''x_j'', ''size_i'']"

definition GMNlayer_init :: "nat \<Rightarrow> nat \<Rightarrow> GMNlayer_weights \<Rightarrow> GMNlayer" where
  "GMNlayer_init in_channels out_chans W =
     (let margs = drop 1 match_argspec in
      \<lparr>aggr = ''add'',
       flow = ''source_to_target'',
       out_channels = out_chans,
       fmessage = \<lparr>in_features = 3 * in_channels, out_features = out_chans,
                   weight = fmessage_weight W, bias = fmessage_bias W\<rparr>,
       fnode = \<lparr>input_size = 2 * out_chans, hidden_size = out_chans,
                weight_ih = fnode_weight_ih W, weight_hh = fnode_weight_hh W,
                bias_ih = fnode_bias_ih W, bias_hh = fnode_bias_hh W\<rparr>,
       match_args = filter (\<lambda>arg. arg \<notin> set special_args) margs,
       special_match_args = filter (\<lambda>(i, arg). arg \<in> set special_args) (enumerate 0 margs),
       update_args = []\<rparr>)"

text \<open>
  \<^verbatim>\<open>message\<close>. The parameters \<^verbatim>\<open>edge_index\<close> and \<^verbatim>\<open>size\<close> are received and not
  read.
\<close>

definition message ::
  "GMNlayer \<Rightarrow> tensor \<Rightarrow> tensor \<Rightarrow> edge_index \<Rightarrow> nat \<times> nat \<Rightarrow> tensor option
     \<Rightarrow> tensor option" where
  "message L x_i x_j edge_index sz edge_weight =
     (case edge_weight of
        None \<Rightarrow> do {
          let edge_weight = ones (size0 x_i) (cols x_i);
          c \<leftarrow> cat [x_i, x_j, edge_weight] 1;
          m \<leftarrow> Linear_forward (fmessage L) c;
          Some (relu m) }
      | Some edge_weight \<Rightarrow> do {
          c \<leftarrow> cat [x_i, x_j, edge_weight] 1;
          m \<leftarrow> Linear_forward (fmessage L) c;
          Some (relu m) })"

definition update :: "GMNlayer \<Rightarrow> tensor \<Rightarrow> tensor" where
  "update L aggr_out = aggr_out"

text \<open>
  \<^verbatim>\<open>MessagePassing.propagate\<close> of the library, as \<^verbatim>\<open>forward\<close> calls it (a size pair,
  a tensor \<^verbatim>\<open>x\<close>, an optional \<^verbatim>\<open>edge_weight\<close>); \<^verbatim>\<open>propagate_match\<close> below is the
  repository's copy of its protocol. Arguments named \<^verbatim>\<open>x_i\<close> and \<^verbatim>\<open>x_j\<close> are the rows
  of \<^verbatim>\<open>x\<close> selected by the two rows of \<^verbatim>\<open>edge_index\<close>, \<^verbatim>\<open>edge_weight\<close> is handed
  over as it is, the messages are reduced at row \<open>i\<close> of \<^verbatim>\<open>edge_index\<close> and the result goes
  through \<^verbatim>\<open>update\<close>. Of the reductions only the sum, the one the layer is built with,
  is modelled.
\<close>

definition propagate ::
  "GMNlayer \<Rightarrow> edge_index \<Rightarrow> nat \<times> nat \<Rightarrow> tensor \<Rightarrow> tensor option \<Rightarrow> tensor option" where
  "propagate L edge_index sz x edge_weight =
     (let (i, j) = (if flow L = ''target_to_source'' then (0, 1) else (1::nat, 0::nat)) in
      if fst sz \<noteq> size0 x \<or> snd sz \<noteq> size0 x then None
      else do {
        x_i \<leftarrow> index_select x 0 (edge_row edge_index i);
        x_j \<leftarrow> index_select x 0 (edge_row edge_index j);
        out \<leftarrow> message L x_i x_j edge_index sz edge_weight;
        out \<leftarrow> (if aggr L = ''add''
                then scatter_sum out (edge_row edge_index i) (if i = 0 then fst sz else snd sz)
                else None);
        Some (update L out) })"

text \<open>
  \<^verbatim>\<open>GMNlayer.forward\<close>. The parameter \<^verbatim>\<open>mode\<close> is never read and is left out.
\<close>

definition GMNlayer_forward ::
  "GMNlayer \<Rightarrow> tensor \<Rightarrow> tensor \<Rightarrow> edge_index \<Rightarrow> edge_index \<Rightarrow> tensor option \<Rightarrow> tensor option
     \<Rightarrow> (tensor \<times> tensor) option" where
  "GMNlayer_forward L x1 x2 edge_index1 edge_index2 edge_weight1 edge_weight2 = do {
     m1 \<leftarrow> propagate L edge_index1 (size0 x1, size0 x1) x1 edge_weight1;
     m2 \<leftarrow> propagate L edge_index2 (size0 x2, size0 x2) x2 edge_weight2;
     scores \<leftarrow> mm x1 (tensor_t x2);
     attn_1 \<leftarrow> softmax scores 1;
     attn_2 \<leftarrow> map_option tensor_t (softmax scores 0);
     attnsum_1 \<leftarrow> mm attn_1 x2;
     attnsum_2 \<leftarrow> mm attn_2 x1;
     u1 \<leftarrow> sub x1 attnsum_1;
     u2 \<leftarrow> sub x2 attnsum_2;
     m1 \<leftarrow> cat [m1, u1] 1;
     h1 \<leftarrow> GRUCell_forward (fnode L) m1 x1;
     m2 \<leftarrow> cat [m2, u2] 1;
     h2 \<leftarrow> GRUCell_forward (fnode L) m2 x2;
     Some (h1, h2) }"

subsection \<open>propagate_match\<close>

text \<open>
  \<^verbatim>\<open>propagate_match\<close> works on untyped keyword arguments. A keyword argument is
  \<^verbatim>\<open>None\<close>, a 2-D float tensor, or a tuple or list of keyword arguments. The values the
  function hands on to \<^verbatim>\<open>match\<close> are these and what it reads out of \<^verbatim>\<open>edge_index\<close>
  and \<^verbatim>\<open>size\<close>: integers, rows, and the two containers themselves.
\<close>

datatype kwarg = KNone | KTensor tensor | KSeq "kwarg list"

datatype pyval =
    PyNone
  | PyInt int
  | PyFloat real
  | PyLong "int list"
  | PyRow vec
  | PyEdge edge_index
  | PyTensor tensor
  | PySeq "pyval list"

fun of_kwarg :: "kwarg \<Rightarrow> pyval" where
  "of_kwarg KNone = PyNone"
| "of_kwarg (KTensor T) = PyTensor T"
| "of_kwarg (KSeq ks) = PySeq (map of_kwarg ks)"

text \<open>\<^verbatim>\<open>v[k]\<close> for \<open>k \<ge> 0\<close>; \<^verbatim>\<open>None\<close> and numbers cannot be subscripted.\<close>

fun py_getitem :: "pyval \<Rightarrow> nat \<Rightarrow> pyval option" where
  "py_getitem (PySeq vs) k = (if k < length vs then Some (vs ! k) else None)"
| "py_getitem (PyEdge e) k = (if k < 2 then Some (PyLong (edge_row e k)) else None)"
| "py_getitem (PyTensor T) k = (if k < size0 T then Some (PyRow (rws T ! k)) else None)"
| "py_getitem (PyLong l) k = (if k < length l then Some (PyInt (l ! k)) else None)"
| "py_getitem (PyRow r) k = (if k < length r then Some (PyFloat (r ! k)) else None)"
| "py_getitem _ k = None"

text \<open>\<^verbatim>\<open>tmp.size(0)\<close>: only a tensor has a size.\<close>

fun kwarg_size0 :: "kwarg \<Rightarrow> int option" where
  "kwarg_size0 (KTensor T) = Some (int (size0 T))"
| "kwarg_size0 _ = None"

fun kwarg_index_select :: "kwarg \<Rightarrow> nat \<Rightarrow> int list \<Rightarrow> pyval option" where
  "kwarg_index_select (KTensor T) dm index = map_option PyTensor (index_select T dm index)"
| "kwarg_index_select _ dm index = None"

text \<open>\<^verbatim>\<open>arg[-2:]\<close> and \<^verbatim>\<open>arg[:-2]\<close>.\<close>

definition arg_suffix :: "string \<Rightarrow> string" where
  "arg_suffix arg = drop (length arg - 2) arg"

definition arg_stem :: "string \<Rightarrow> string" where
  "arg_stem arg = take (length arg - 2) arg"

text \<open>The dictionary \<^verbatim>\<open>ij = {"_i": i, "_j": j}\<close>.\<close>

definition ij :: "GMNlayer \<Rightarrow> string \<Rightarrow> nat option" where
  "ij L s =
     (let (i, j) = (if flow L = ''target_to_source'' then (0, 1) else (1::nat, 0::nat)) in
      if s = ''_i'' then Some i else if s = ''_j'' then Some j else None)"

text \<open>
  The two statements \<^verbatim>\<open>if size[k] is None: size[k] = t.size(0)\<close> and
  \<^verbatim>\<open>if size[k] != t.size(0): raise ValueError\<close>.
\<close>

definition set_size :: "int option list \<Rightarrow> nat \<Rightarrow> kwarg \<Rightarrow> int option list option" where
  "set_size sz k t = do {
     n \<leftarrow> kwarg_size0 t;
     let sz = (if sz ! k = None then sz[k := Some n] else sz);
     if sz ! k \<noteq> Some n then None else Some sz }"

text \<open>One round of the loop over \<^verbatim>\<open>self.__match_args__\<close>.\<close>

definition match_arg_step ::
  "GMNlayer \<Rightarrow> edge_index \<Rightarrow> (string \<rightharpoonup> kwarg) \<Rightarrow> string \<Rightarrow> int option list \<times> pyval list
     \<Rightarrow> (int option list \<times> pyval list) option" where
  "match_arg_step L edge_index kwargs arg st =
     (case st of (sz, margs) \<Rightarrow>
       (case ij L (arg_suffix arg) of
          Some idx \<Rightarrow>
            (case kwargs (arg_stem arg) of
               None \<Rightarrow> Some (sz, margs @ [PyNone])
             | Some KNone \<Rightarrow> Some (sz, margs @ [PyNone])
             | Some tmp \<Rightarrow> do {
                 (sz, tmp) \<leftarrow>
                   (case tmp of
                      KSeq ts \<Rightarrow>
                        if length ts \<noteq> 2 then None
                        else do {
                          sz \<leftarrow> (if ts ! (1 - idx) \<noteq> KNone
                                 then set_size sz (1 - idx) (ts ! (1 - idx))
                                 else Some sz);
                          Some (sz, ts ! idx) }
                    | _ \<Rightarrow> Some (sz, tmp));
                 sz \<leftarrow> set_size sz idx tmp;
                 tmp \<leftarrow> kwarg_index_select tmp 0 (edge_row edge_index idx);
                 Some (sz, margs @ [tmp]) })
        | None \<Rightarrow>
            Some (sz, margs @ [case kwargs arg of None \<Rightarrow> PyNone | Some v \<Rightarrow> of_kwarg v])))"

fun collect_match_args ::
  "GMNlayer \<Rightarrow> edge_index \<Rightarrow> (string \<rightharpoonup> kwarg) \<Rightarrow> string list \<Rightarrow> int option list \<times> pyval list
     \<Rightarrow> (int option list \<times> pyval list) option" where
  "collect_match_args L edge_index kwargs [] st = Some st"
| "collect_match_args L edge_index kwargs (arg # rest) st = do {
     st \<leftarrow> match_arg_step L edge_index kwargs arg st;
     collect_match_args L edge_index kwargs rest st }"

text \<open>\<^verbatim>\<open>list.insert(idx, v)\<close> for \<open>idx \<ge> 0\<close>.\<close>

definition list_insert :: "nat \<Rightarrow> 'a \<Rightarrow> 'a list \<Rightarrow> 'a list" where
  "list_insert idx v xs = take idx xs @ v # drop idx xs"

text \<open>
  The loop over \<^verbatim>\<open>self.__special_match_args__\<close>; \<open>kw\<close> is the dictionary
  \<^verbatim>\<open>kwargs\<close> after \<^verbatim>\<open>edge_index\<close> and \<^verbatim>\<open>size\<close> were stored in it, and a missing
  key raises.
\<close>

fun insert_special_args ::
  "GMNlayer \<Rightarrow> (string \<rightharpoonup> pyval) \<Rightarrow> (nat \<times> string) list \<Rightarrow> pyval list \<Rightarrow> pyval list option" where
  "insert_special_args L kw [] margs = Some margs"
| "insert_special_args L kw ((idx, arg) # rest) margs = do {
     v \<leftarrow> (case ij L (arg_suffix arg) of
            Some k \<Rightarrow> do { c \<leftarrow> kw (arg_stem arg); py_getitem c k }
          | None \<Rightarrow> kw arg);
     insert_special_args L kw rest (list_insert idx v margs) }"

text \<open>\<^verbatim>\<open>match\<close>: a bare \<^verbatim>\<open>return\<close>, whatever the four arguments.\<close>

definition match :: "GMNlayer \<Rightarrow> pyval \<Rightarrow> pyval \<Rightarrow> pyval \<Rightarrow> pyval \<Rightarrow> pyval" where
  "match L edge_index_i x_i x_j size_i = PyNone"

text \<open>\<^verbatim>\<open>self.match(*match_args)\<close>: any number of arguments but four raises.\<close>

definition apply_match :: "GMNlayer \<Rightarrow> pyval list \<Rightarrow> pyval option" where
  "apply_match L margs =
     (case margs of [a, b, c, d] \<Rightarrow> Some (match L a b c d) | _ \<Rightarrow> None)"

text \<open>
  \<^verbatim>\<open>scatter(self.aggr, out_attn, edge_index[i], dim_size=size[i])\<close>, read the way the call
  is written: the name of the reduction, the source, the index, the number of rows (the
  largest index plus one when \<^verbatim>\<open>None\<close>). A source that is not a tensor raises. (The
  library's own \<^verbatim>\<open>scatter\<close> takes the source first; under that reading the call raises
  whatever \<^verbatim>\<open>match\<close> returns.)
\<close>

definition scatter :: "string \<Rightarrow> pyval \<Rightarrow> int list \<Rightarrow> int option \<Rightarrow> tensor option" where
  "scatter name src index dim_size =
     (case src of
        PyTensor T \<Rightarrow>
          if name = ''add'' then
            (case dim_size of
               Some n \<Rightarrow> if n < 0 then None else scatter_sum T index (nat n)
             | None \<Rightarrow> scatter_sum T index
                         (if index = [] then 0 else nat (fold max index (hd index) + 1)))
          else None
      | _ \<Rightarrow> None)"

definition size_val :: "int option \<Rightarrow> pyval" where
  "size_val s = (case s of None \<Rightarrow> PyNone | Some n \<Rightarrow> PyInt n)"

definition propagate_match ::
  "GMNlayer \<Rightarrow> edge_index \<Rightarrow> int option list option \<Rightarrow> (string \<rightharpoonup> kwarg) \<Rightarrow> tensor option" where
  "propagate_match L edge_index size_arg kwargs =
     (let sz = (case size_arg of None \<Rightarrow> [None, None] | Some s \<Rightarrow> s) in
      if length sz \<noteq> 2 then None
      else
        (let (i, j) = (if flow L = ''target_to_source'' then (0, 1) else (1::nat, 0::nat)) in do {
           (sz, margs) \<leftarrow> collect_match_args L edge_index kwargs (match_args L) (sz, []);
           let sz = sz[0 := (if sz ! 0 = None then sz ! 1 else sz ! 0)];
           let sz = sz[1 := (if sz ! 1 = None then sz ! 0 else sz ! 1)];
           let kw = (\<lambda>name. if name = ''size'' then Some (PySeq (map size_val sz))
                            else if name = ''edge_index'' then Some (PyEdge edge_index)
                            else map_option of_kwarg (kwargs name));
           margs \<leftarrow> insert_special_args L kw (special_match_args L) margs;
           upd_args \<leftarrow> those (map kw (update_args L));
           out_attn \<leftarrow> apply_match L margs;
           out_attn \<leftarrow> scatter (aggr L) out_attn (edge_row edge_index i) (sz ! i);
           if upd_args = [] then Some (update L out_attn) else None }))"

section \<open>Embedding and pooling modules of the library\<close>

text \<open>
  \<^verbatim>\<open>nn.Embedding(num_embeddings, embedding_dim)\<close>: a table of shape
  \<open>[num_embeddings, embedding_dim]\<close>. The node and edge attributes arrive as long tensors of
  shape \<open>[N, 1]\<close>, here the list of the \<open>N\<close> entries; the lookup gives a tensor of shape
  \<open>[N, 1, embedding_dim]\<close>, the list of \<open>N\<close> slabs of one row each, and raises on an entry
  outside \<open>[0, num_embeddings)\<close>. \<^verbatim>\<open>squeeze(1)\<close> drops the middle dimension.
\<close>

record Embedding =
  num_embeddings :: nat
  embedding_dim :: nat
  embedding_weight :: tensor

definition wf_Embedding :: "Embedding \<Rightarrow> bool" where
  "wf_Embedding E = (wf_tensor (embedding_weight E) \<and>
                     cols (embedding_weight E) = embedding_dim E \<and>
                     size0 (embedding_weight E) = num_embeddings E)"

record tensor3 =
  cols3 :: nat
  slabs :: "vec list list"

definition Embedding_forward :: "Embedding \<Rightarrow> int list \<Rightarrow> tensor3 option" where
  "Embedding_forward E input =
     (if list_all (\<lambda>k. 0 \<le> k \<and> k < int (num_embeddings E)) input
      then Some \<lparr>cols3 = embedding_dim E,
                 slabs = map (\<lambda>k. [rws (embedding_weight E) ! nat k]) input\<rparr>
      else None)"

definition squeeze1 :: "tensor3 \<Rightarrow> tensor" where
  "squeeze1 T = \<lparr>cols = cols3 T, rws = map hd (slabs T)\<rparr>"

text \<open>
  \<^verbatim>\<open>nn.Sequential(nn.Linear(embedding_dim, 1), nn.Sigmoid())\<close>: the gate network, given by
  its linear layer.
\<close>

definition Sequential_forward :: "Linear \<Rightarrow> tensor \<Rightarrow> tensor option" where
  "Sequential_forward lin X =
     map_option (\<lambda>Y. \<lparr>cols = cols Y, rws = map (map sigmoid) (rws Y)\<rparr>) (Linear_forward lin X)"

text \<open>
  \<^verbatim>\<open>GlobalAttention(gate_nn)\<close> of the library, called with a \<^verbatim>\<open>batch\<close> vector that
  names the graph of every node. The number of graphs is the largest entry of \<^verbatim>\<open>batch\<close>
  plus one, and zero for an empty \<^verbatim>\<open>batch\<close> (so it is in the versions of the library
  that export \<^verbatim>\<open>scatter\<close> from \<^verbatim>\<open>torch_geometric.utils\<close>, as line 8 of
  \<^verbatim>\<open>models.py\<close> needs; older versions read the last entry of \<^verbatim>\<open>batch\<close> and raise
  on an empty one). The one-column gate is normalised over the
  nodes of each graph (the library subtracts the graph's maximum and adds \<open>1e-16\<close> to the
  denominator), and row \<open>g\<close> of the result is the gate-weighted sum of the rows of graph \<open>g\<close>.
\<close>

record GlobalAttention =
  gate_nn :: Linear

definition group_vals :: "vec \<Rightarrow> int list \<Rightarrow> int \<Rightarrow> vec" where
  "group_vals g batch b = map fst (filter (\<lambda>p. snd p = b) (zip g batch))"

definition graph_softmax :: "vec \<Rightarrow> int list \<Rightarrow> vec" where
  "graph_softmax g batch =
     map (\<lambda>(v, b). let grp = group_vals g batch b; mx = fold max grp v
                    in exp (v - mx) / (sum_list (map (\<lambda>u. exp (u - mx)) grp) + 1 / 10 ^ 16))
         (zip g batch)"

definition GlobalAttention_forward :: "GlobalAttention \<Rightarrow> tensor \<Rightarrow> int list \<Rightarrow> tensor option" where
  "GlobalAttention_forward P x batch = do {
     let dim_size = (if batch = [] then 0 else nat (fold max batch (hd batch) + 1));
     gate \<leftarrow> Sequential_forward (gate_nn P) x;
     if cols gate \<noteq> 1 \<or> length batch \<noteq> size0 x then None
     else do {
       let gate = graph_softmax (map hd (rws gate)) batch;
       scatter_sum \<lparr>cols = cols x, rws = map2 (\<lambda>w r. map ((*) w) r) gate (rws x)\<rparr>
         batch dim_size } }"

text \<open>\<^verbatim>\<open>torch.zeros(n, dtype=torch.long)\<close>.\<close>

definition zeros_long :: "nat \<Rightarrow> int list" where
  "zeros_long n = replicate n 0"

section \<open>GMNnet\<close>

text \<open>
  \<^verbatim>\<open>num_layers\<close> is a count: the type leaves negative values out. The pooling layer is
  built on the module \<^verbatim>\<open>mlp_gate\<close> itself.
\<close>

record GMNnet =
  num_layers :: nat
  embed :: Embedding
  edge_embed :: Embedding
  gmnlayer :: GMNlayer
  mlp_gate :: Linear
  pool :: GlobalAttention

record GMNnet_weights =
  embed_weight :: tensor
  edge_embed_weight :: tensor
  gmnlayer_weights :: GMNlayer_weights
  mlp_gate_weight :: tensor
  mlp_gate_bias :: vec

definition GMNnet_init :: "nat \<Rightarrow> nat \<Rightarrow> nat \<Rightarrow> GMNnet_weights \<Rightarrow> GMNnet" where
  "GMNnet_init vocablen emb_dim n_layers W =
     (let gate = \<lparr>in_features = emb_dim, out_features = 1,
                  weight = mlp_gate_weight W, bias = mlp_gate_bias W\<rparr> in
      \<lparr>num_layers = n_layers,
       embed = \<lparr>num_embeddings = vocablen, embedding_dim = emb_dim,
                embedding_weight = embed_weight W\<rparr>,
       edge_embed = \<lparr>num_embeddings = 20, embedding_dim = emb_dim,
                     embedding_weight = edge_embed_weight W\<rparr>,
       gmnlayer = GMNlayer_init emb_dim emb_dim (gmnlayer_weights W),
       mlp_gate = gate,
       pool = \<lparr>gate_nn = gate\<rparr>\<rparr>)"

text \<open>
  The loop \<^verbatim>\<open>for i in range(self.num_layers)\<close> of \<^verbatim>\<open>GMNnet.forward\<close>: the first
  argument counts the iterations left.
\<close>

fun gmn_loop ::
  "nat \<Rightarrow> GMNlayer \<Rightarrow> edge_index \<Rightarrow> edge_index \<Rightarrow> tensor option \<Rightarrow> tensor option
     \<Rightarrow> tensor \<times> tensor \<Rightarrow> (tensor \<times> tensor) option" where
  "gmn_loop 0 L edge_index1 edge_index2 edge_weight1 edge_weight2 (x1, x2) = Some (x1, x2)"
| "gmn_loop (Suc n) L edge_index1 edge_index2 edge_weight1 edge_weight2 (x1, x2) = do {
     (x1, x2) \<leftarrow> GMNlayer_forward L x1 x2 edge_index1 edge_index2 edge_weight1 edge_weight2;
     gmn_loop n L edge_index1 edge_index2 edge_weight1 edge_weight2 (x1, x2) }"

type_synonym gmn_data =
  "int list \<times> int list \<times> edge_index \<times> edge_index \<times> int list option \<times> int list option"

definition GMNnet_forward :: "GMNnet \<Rightarrow> gmn_data \<Rightarrow> (tensor \<times> tensor) option" where
  "GMNnet_forward M data =
     (case data of (x1, x2, edge_index1, edge_index2, edge_attr1, edge_attr2) \<Rightarrow> do {
        x1 \<leftarrow> Embedding_forward (embed M) x1;
        let x1 = squeeze1 x1;
        x2 \<leftarrow> Embedding_forward (embed M) x2;
        let x2 = squeeze1 x2;
        (edge_weight1, edge_weight2) \<leftarrow>
          (case edge_attr1 of
             None \<Rightarrow> Some (None, None)
           | Some edge_attr1 \<Rightarrow> do {
               edge_weight1 \<leftarrow> Embedding_forward (edge_embed M) edge_attr1;
               let edge_weight1 = squeeze1 edge_weight1;
               edge_attr2 \<leftarrow> edge_attr2;
               edge_weight2 \<leftarrow> Embedding_forward (edge_embed M) edge_attr2;
               let edge_weight2 = squeeze1 edge_weight2;
               Some (Some edge_weight1, Some edge_weight2) });
        (x1, x2) \<leftarrow> gmn_loop (num_layers M) (gmnlayer M) edge_index1 edge_index2
                      edge_weight1 edge_weight2 (x1, x2);
        let batch1 = zeros_long (size0 x1);
        let batch2 = zeros_long (size0 x2);
        hg1 \<leftarrow> GlobalAttention_forward (pool M) x1 batch1;
        hg2 \<leftarrow> GlobalAttention_forward (pool M) x2 batch2;
        Some (hg1, hg2) })"

section \<open>GGNN\<close>

text \<open>
  \<^verbatim>\<open>GatedGraphConv(out_channels, num_layers)\<close> of the library, called with node features
  and an \<^verbatim>\<open>edge_index\<close> (no edge weight): features wider than \<^verbatim>\<open>out_channels\<close> raise,
  narrower ones are padded with zeros; then, \<^verbatim>\<open>num_layers\<close> times, the features are
  multiplied by that step's weight, every node sums what its incoming edges carry from their
  sources, and a GRU cell takes the sum as input and the features as hidden state.
\<close>

record GatedGraphConv =
  ggc_out_channels :: nat
  ggc_num_layers :: nat
  ggc_weight :: "tensor list"
  rnn :: GRUCell

definition zeros :: "nat \<Rightarrow> nat \<Rightarrow> tensor" where
  "zeros n c = \<lparr>cols = c, rws = replicate n (replicate c 0)\<rparr>"

definition ggc_propagate :: "edge_index \<Rightarrow> tensor \<Rightarrow> tensor option" where
  "ggc_propagate edge_index x = do {
     x_j \<leftarrow> index_select x 0 (edge_row edge_index 0);
     scatter_sum x_j (edge_row edge_index 1) (size0 x) }"

fun ggc_loop :: "GatedGraphConv \<Rightarrow> edge_index \<Rightarrow> nat list \<Rightarrow> tensor \<Rightarrow> tensor option" where
  "ggc_loop C edge_index [] x = Some x"
| "ggc_loop C edge_index (i # rest) x = do {
     w \<leftarrow> (if i < length (ggc_weight C) then Some (ggc_weight C ! i) else None);
     m \<leftarrow> mm x w;
     m \<leftarrow> ggc_propagate edge_index m;
     x \<leftarrow> GRUCell_forward (rnn C) m x;
     ggc_loop C edge_index rest x }"

definition GatedGraphConv_forward :: "GatedGraphConv \<Rightarrow> tensor \<Rightarrow> edge_index \<Rightarrow> tensor option" where
  "GatedGraphConv_forward C x edge_index =
     (if cols x > ggc_out_channels C then None
      else do {
        x \<leftarrow> (if cols x < ggc_out_channels C
               then cat [x, zeros (size0 x) (ggc_out_channels C - cols x)] 1
               else Some x);
        ggc_loop C edge_index [0..<ggc_num_layers C] x })"

text \<open>
  The attributes of \<^verbatim>\<open>GGNN\<close> carry the prefix \<open>ggnn_\<close> where \<^verbatim>\<open>GMNnet\<close> has an
  attribute of the same name.
\<close>

record GGNN =
  ggnn_embed :: Embedding
  ggnn_edge_embed :: Embedding
  ggnnlayer :: GatedGraphConv
  ggnn_mlp_gate :: Linear
  ggnn_pool :: GlobalAttention

record GGNN_weights =
  ggnn_embed_weight :: tensor
  ggnn_edge_embed_weight :: tensor
  ggnnlayer_weight :: "tensor list"
  ggnnlayer_rnn_weight_ih :: tensor
  ggnnlayer_rnn_weight_hh :: tensor
  ggnnlayer_rnn_bias_ih :: vec
  ggnnlayer_rnn_bias_hh :: vec
  ggnn_mlp_gate_weight :: tensor
  ggnn_mlp_gate_bias :: vec

definition GGNN_init :: "nat \<Rightarrow> nat \<Rightarrow> nat \<Rightarrow> GGNN_weights \<Rightarrow> GGNN" where
  "GGNN_init vocablen emb_dim n_layers W =
     (let gate = \<lparr>in_features = emb_dim, out_features = 1,
                  weight = ggnn_mlp_gate_weight W, bias = ggnn_mlp_gate_bias W\<rparr> in
      \<lparr>ggnn_embed = \<lparr>num_embeddings = vocablen, embedding_dim = emb_dim,
                     embedding_weight = ggnn_embed_weight W\<rparr>,
       ggnn_edge_embed = \<lparr>num_embeddings = 20, embedding_dim = emb_dim,
                          embedding_weight = ggnn_edge_embed_weight W\<rparr>,
       ggnnlayer = \<lparr>ggc_out_channels = emb_dim, ggc_num_layers = n_layers,
                    ggc_weight = ggnnlayer_weight W,
                    rnn = \<lparr>input_size = emb_dim, hidden_size = emb_dim,
                           weight_ih = ggnnlayer_rnn_weight_ih W,
                           weight_hh = ggnnlayer_rnn_weight_hh W,
                           bias_ih = ggnnlayer_rnn_bias_ih W,
                           bias_hh = ggnnlayer_rnn_bias_hh W\<rparr>\<rparr>,
       ggnn_mlp_gate = gate,
       ggnn_pool = \<lparr>gate_nn = gate\<rparr>\<rparr>)"

type_synonym ggnn_data = "int list \<times> edge_index \<times> int list option"

definition GGNN_forward :: "GGNN \<Rightarrow> ggnn_data \<Rightarrow> tensor option" where
  "GGNN_forward M data =
     (case data of (x, edge_index, edge_attr) \<Rightarrow> do {
        x \<leftarrow> Embedding_forward (ggnn_embed M) x;
        let x = squeeze1 x;
        edge_weight \<leftarrow>
          (case edge_attr of
             None \<Rightarrow> Some None
           | Some edge_attr \<Rightarrow> do {
               edge_weight \<leftarrow> Embedding_forward (ggnn_edge_embed M) edge_attr;
               let edge_weight = squeeze1 edge_weight;
               Some (Some edge_weight) });
        x \<leftarrow> GatedGraphConv_forward (ggnnlayer M) x edge_index;
        let batch = zeros_long (size0 x);
        hg \<leftarrow> GlobalAttention_forward (ggnn_pool M) x batch;
        Some hg })"

section \<open>Well-formed inputs and the properties' vocabulary\<close>

text \<open>
  The edges of a graph of \<open>n\<close> nodes name nodes of that graph; an edge weight, when there is
  one, has a row per edge and as many columns as the node features.
\<close>

definition valid_edges :: "edge_index \<Rightarrow> nat \<Rightarrow> bool" where
  "valid_edges edge_index n =
     list_all (\<lambda>e. 0 \<le> fst e \<and> fst e < int n \<and> 0 \<le> snd e \<and> snd e < int n) edge_index"

definition valid_edge_weight :: "tensor option \<Rightarrow> nat \<Rightarrow> nat \<Rightarrow> bool" where
  "valid_edge_weight edge_weight n_edges d =
     (case edge_weight of None \<Rightarrow> True | Some w \<Rightarrow> size0 w = n_edges \<and> cols w = d)"

text \<open>
  The message of the single edge number \<open>e\<close>, from source \<open>j\<close> to target \<open>i\<close>, written
  after the claim: \<open>relu(fmessage(cat(x_i, x_j, edge_weight)))\<close> on the rows of that edge
  alone, the weight row being all ones when there is no edge weight.
\<close>

definition edge_weight_row :: "tensor option \<Rightarrow> nat \<Rightarrow> nat \<Rightarrow> vec" where
  "edge_weight_row edge_weight d e =
     (case edge_weight of None \<Rightarrow> replicate d 1 | Some w \<Rightarrow> rws w ! e)"

definition edge_message ::
  "GMNlayer \<Rightarrow> tensor \<Rightarrow> edge_index \<Rightarrow> tensor option \<Rightarrow> nat \<Rightarrow> vec" where
  "edge_message L x edge_index edge_weight e =
     map (max 0)
       (affine (weight (fmessage L)) (bias (fmessage L))
          (rws x ! nat (snd (edge_index ! e)) @ rws x ! nat (fst (edge_index ! e)) @
           edge_weight_row edge_weight (cols x) e))"

text \<open>The edges that arrive at node \<open>i\<close>, in the order of \<^verbatim>\<open>edge_index\<close>.\<close>

definition incoming :: "edge_index \<Rightarrow> nat \<Rightarrow> nat list" where
  "incoming edge_index i = filter (\<lambda>e. snd (edge_index ! e) = int i) [0..<length edge_index]"

text \<open>The sum of a list of vectors of \<open>d\<close> entries.\<close>

definition vsum :: "nat \<Rightarrow> vec list \<Rightarrow> vec" where
  "vsum d vs = fold (\<lambda>v acc. vadd acc v) vs (replicate d 0)"

text \<open>
  Lines 108 to 114 of \<^verbatim>\<open>GMNlayer.forward\<close> on their own: the two attention
  matrices and the two update terms.
\<close>

definition cross_graph_attention ::
  "tensor \<Rightarrow> tensor \<Rightarrow> (tensor \<times> tensor \<times> tensor \<times> tensor) option" where
  "cross_graph_attention x1 x2 = do {
     scores \<leftarrow> mm x1 (tensor_t x2);
     attn_1 \<leftarrow> softmax scores 1;
     attn_2 \<leftarrow> map_option tensor_t (softmax scores 0);
     attnsum_1 \<leftarrow> mm attn_1 x2;
     attnsum_2 \<leftarrow> mm attn_2 x1;
     u1 \<leftarrow> sub x1 attnsum_1;
     u2 \<leftarrow> sub x2 attnsum_2;
     Some (attn_1, attn_2, u1, u2) }"


text \<open>
  Entries of a long tensor that index a table of \<open>n\<close> rows; and the weights of the learned
  modules having the shapes their constructors give them.
\<close>

definition valid_indices :: "int list \<Rightarrow> nat \<Rightarrow> bool" where
  "valid_indices xs n = list_all (\<lambda>k. 0 \<le> k \<and> k < int n) xs"

definition wf_GMNlayer :: "GMNlayer \<Rightarrow> bool" where
  "wf_GMNlayer L = (wf_Linear (fmessage L) \<and> wf_GRUCell (fnode L))"

definition wf_GMNnet :: "GMNnet \<Rightarrow> bool" where
  "wf_GMNnet M = (wf_Embedding (embed M) \<and> wf_Embedding (edge_embed M) \<and>
                  wf_GMNlayer (gmnlayer M) \<and> wf_Linear (mlp_gate M))"

text \<open>
  Lines 157 to 164 of \<^verbatim>\<open>GMNnet.forward\<close> on their own: the two edge weights. Only
  \<^verbatim>\<open>edge_attr1\<close> is tested for \<^verbatim>\<open>None\<close>; when it is a tensor, \<^verbatim>\<open>edge_attr2\<close>
  is embedded too, which raises if \<^verbatim>\<open>edge_attr2\<close> is \<^verbatim>\<open>None\<close>.
\<close>

definition edge_weights ::
  "GMNnet \<Rightarrow> int list option \<Rightarrow> int list option \<Rightarrow> (tensor option \<times> tensor option) option" where
  "edge_weights M edge_attr1 edge_attr2 =
     (case edge_attr1 of
        None \<Rightarrow> Some (None, None)
      | Some edge_attr1 \<Rightarrow> do {
          edge_weight1 \<leftarrow> Embedding_forward (edge_embed M) edge_attr1;
          let edge_weight1 = squeeze1 edge_weight1;
          edge_attr2 \<leftarrow> edge_attr2;
          edge_weight2 \<leftarrow> Embedding_forward (edge_embed M) edge_attr2;
          let edge_weight2 = squeeze1 edge_weight2;
          Some (Some edge_weight1, Some edge_weight2) })"

text \<open>
  One application of the layer to a pair of node states that may already be an error:
  iterated, it states ``the layer is applied \<open>n\<close> times''.
\<close>

definition layer_step ::
  "GMNlayer \<Rightarrow> edge_index \<Rightarrow> edge_index \<Rightarrow> tensor option \<Rightarrow> tensor option
     \<Rightarrow> (tensor \<times> tensor) option \<Rightarrow> (tensor \<times> tensor) option" where
  "layer_step L edge_index1 edge_index2 edge_weight1 edge_weight2 s =
     s \<bind> (\<lambda>(x1, x2). GMNlayer_forward L x1 x2 edge_index1 edge_index2 edge_weight1 edge_weight2)"

text \<open>
  Well-formed input of \<^verbatim>\<open>GMNnet.forward\<close>: node tokens within the vocabulary, edges that
  name nodes of their graph, and edge attributes that are absent or give every edge of both
  graphs a type below 20, the size of the edge embedding table.
\<close>

definition valid_edge_attrs ::
  "int list option \<Rightarrow> int list option \<Rightarrow> edge_index \<Rightarrow> edge_index \<Rightarrow> bool" where
  "valid_edge_attrs edge_attr1 edge_attr2 edge_index1 edge_index2 =
     (case edge_attr1 of
        None \<Rightarrow> True
      | Some a1 \<Rightarrow>
          (case edge_attr2 of
             None \<Rightarrow> False
           | Some a2 \<Rightarrow> valid_indices a1 20 \<and> valid_indices a2 20 \<and>
                        length a1 = length edge_index1 \<and> length a2 = length edge_index2))"

definition valid_gmn_data :: "nat \<Rightarrow> gmn_data \<Rightarrow> bool" where
  "valid_gmn_data vocablen data =
     (case data of (x1, x2, edge_index1, edge_index2, edge_attr1, edge_attr2) \<Rightarrow>
        valid_indices x1 vocablen \<and> valid_indices x2 vocablen \<and>
        valid_edges edge_index1 (length x1) \<and> valid_edges edge_index2 (length x2) \<and>
        valid_edge_attrs edge_attr1 edge_attr2 edge_index1 edge_index2)"

text \<open>
  Well-formed input of \<^verbatim>\<open>GGNN.forward\<close>, and the weight of the gated graph convolution
  having the shape \<open>[num_layers, out_channels, out_channels]\<close> its constructor gives it.
\<close>

definition valid_edge_attr :: "int list option \<Rightarrow> bool" where
  "valid_edge_attr edge_attr = (case edge_attr of None \<Rightarrow> True | Some a \<Rightarrow> valid_indices a 20)"

definition valid_ggnn_data :: "nat \<Rightarrow> ggnn_data \<Rightarrow> bool" where
  "valid_ggnn_data vocablen data =
     (case data of (x, edge_index, edge_attr) \<Rightarrow>
        valid_indices x vocablen \<and> valid_edges edge_index (length x) \<and>
        valid_edge_attr edge_attr)"

definition wf_GatedGraphConv :: "GatedGraphConv \<Rightarrow> bool" where
  "wf_GatedGraphConv C =
     (length (ggc_weight C) = ggc_num_layers C \<and>
      list_all (\<lambda>w. size0 w = ggc_out_channels C \<and> cols w = ggc_out_channels C) (ggc_weight C))"

section \<open>Example inputs\<close>

text \<open>
  A layer of width 1 and a graph of two nodes, for the concrete instances of the theorems
  below.
\<close>

definition demo_weights :: GMNlayer_weights where
  "demo_weights =
     \<lparr>fmessage_weight = \<lparr>cols = 3, rws = [[1, 1, 1]]\<rparr>,
      fmessage_bias = [0],
      fnode_weight_ih = \<lparr>cols = 2, rws = [[0, 0], [0, 0], [0, 0]]\<rparr>,
      fnode_weight_hh = \<lparr>cols = 1, rws = [[0], [0], [0]]\<rparr>,
      fnode_bias_ih = [0, 0, 0],
      fnode_bias_hh = [0, 0, 0]\<rparr>"

definition demo_layer :: GMNlayer where
  "demo_layer = GMNlayer_init 1 1 demo_weights"

definition demo_x :: tensor where
  "demo_x = \<lparr>cols = 1, rws = [[2], [3]]\<rparr>"

text \<open>A graph without nodes: node features of shape \<open>[0, 1]\<close>.\<close>

definition demo_empty :: tensor where
  "demo_empty = \<lparr>cols = 1, rws = []\<rparr>"

definition demo_edges :: edge_index where
  "demo_edges = [(0, 1), (1, 0), (0, 0)]"

text \<open>
  A network of width 1 with two layers over a vocabulary of two tokens, a pair of graphs for
  it, and a pair whose first graph has no node.
\<close>

definition demo_net_weights :: GMNnet_weights where
  "demo_net_weights =
     \<lparr>embed_weight = \<lparr>cols = 1, rws = [[2], [3]]\<rparr>,
      edge_embed_weight = \<lparr>cols = 1, rws = replicate 20 [1]\<rparr>,
      gmnlayer_weights = demo_weights,
      mlp_gate_weight = \<lparr>cols = 1, rws = [[1]]\<rparr>,
      mlp_gate_bias = [0]\<rparr>"

definition demo_net :: GMNnet where
  "demo_net = GMNnet_init 2 1 2 demo_net_weights"

definition demo_data :: gmn_data where
  "demo_data = ([0, 1], [1], demo_edges, [(0, 0)], Some [0, 3, 19], Some [7])"

definition demo_data_empty :: gmn_data where
  "demo_data_empty = ([], [1], [], [(0, 0)], None, None)"

text \<open>A gated graph network of width 1 with two propagation steps.\<close>

definition demo_ggnn_weights :: GGNN_weights where
  "demo_ggnn_weights =
     \<lparr>ggnn_embed_weight = \<lparr>cols = 1, rws = [[2], [3]]\<rparr>,
      ggnn_edge_embed_weight = \<lparr>cols = 1, rws = replicate 20 [1]\<rparr>,
      ggnnlayer_weight = [\<lparr>cols = 1, rws = [[1]]\<rparr>, \<lparr>cols = 1, rws = [[1]]\<rparr>],
      ggnnlayer_rnn_weight_ih = \<lparr>cols = 1, rws = [[0], [0], [0]]\<rparr>,
      ggnnlayer_rnn_weight_hh = \<lparr>cols = 1, rws = [[0], [0], [0]]\<rparr>,
      ggnnlayer_rnn_bias_ih = [0, 0, 0],
      ggnnlayer_rnn_bias_hh = [0, 0, 0],
      ggnn_mlp_gate_weight = \<lparr>cols = 1, rws = [[1]]\<rparr>,
      ggnn_mlp_gate_bias = [0]\<rparr>"

definition demo_ggnn :: GGNN where
  "demo_ggnn = GGNN_init 2 1 2 demo_ggnn_weights"

section \<open>Properties of GMNlayer\<close>

subsection \<open>The default edge weight\<close>

lemma message_None_ones_same_cols:
  assumes "in_features (fmessage L) = 3 * ic" and "cols x_j = cols x_i"
  shows "message L x_i x_j ei sz None = message L x_i x_j ei sz (Some (ones (size0 x_i) ic))"
proof (cases "cols x_i = ic")
  case True
  then show ?thesis by (simp add: message_def)
next
  case False
  with assms show ?thesis
    by (auto simp: message_def cat_def ones_def Linear_forward_def size0_def
        split: Option.bind_splits)
qed

lemma index_select_0_shape:
  "index_select x 0 idx = Some y \<Longrightarrow> cols y = cols x \<and> size0 y = length idx"
  by (auto simp: index_select_def size0_def split: if_splits)

lemma propagate_None_ones:
  assumes "in_features (fmessage L) = 3 * ic"
  shows "propagate L ei sz x None = propagate L ei sz x (Some (ones (length ei) ic))"
proof -
  have "message L x_i x_j ei sz None = message L x_i x_j ei sz (Some (ones (length ei) ic))"
    if "index_select x 0 (edge_row ei i) = Some x_i" "index_select x 0 (edge_row ei j) = Some x_j"
    for x_i x_j i j
  proof -
    from that have "cols x_j = cols x_i" "size0 x_i = length ei"
      by (auto dest!: index_select_0_shape simp: edge_row_def)
    with message_None_ones_same_cols [OF assms, of x_j x_i ei sz] show ?thesis by simp
  qed
  then show ?thesis
    by (auto simp: propagate_def Let_def split: Option.bind_split)
qed

text \<open>
  Claim C9. In a layer built with \<open>in_channels\<close> input channels, \<^verbatim>\<open>message\<close> called
  with \<^verbatim>\<open>edge_weight = None\<close> on \<open>x_i\<close> of shape \<open>[E, in_channels]\<close> returns what it
  returns for the all-ones edge weight of shape \<open>[E, in_channels]\<close>; and
  \<^verbatim>\<open>GMNlayer.forward\<close> with both edge weights \<^verbatim>\<open>None\<close> equals
  \<^verbatim>\<open>GMNlayer.forward\<close> with the all-ones edge weights, one row per edge. The two branches
  of the \<^verbatim>\<open>None\<close> test differ only in that the first builds the ones.
\<close>

theorem message_None_is_ones:
  "(cols x_i = in_channels \<longrightarrow>
      message (GMNlayer_init in_channels oc W) x_i x_j ei sz None =
      message (GMNlayer_init in_channels oc W) x_i x_j ei sz
        (Some (ones (size0 x_i) in_channels))) \<and>
   GMNlayer_forward (GMNlayer_init in_channels oc W) x1 x2 ei1 ei2 None None =
   GMNlayer_forward (GMNlayer_init in_channels oc W) x1 x2 ei1 ei2
      (Some (ones (length ei1) in_channels)) (Some (ones (length ei2) in_channels))"
proof -
  let ?L = "GMNlayer_init in_channels oc W"
  have fm: "in_features (fmessage ?L) = 3 * in_channels"
    by (simp add: GMNlayer_init_def Let_def)
  have m: "cols x_i = in_channels \<longrightarrow> message ?L x_i x_j ei sz None =
      message ?L x_i x_j ei sz (Some (ones (size0 x_i) in_channels))"
    by (auto simp: message_def)
  have p: "\<And>ei sz x. propagate ?L ei sz x None =
      propagate ?L ei sz x (Some (ones (length ei) in_channels))"
    by (rule propagate_None_ones [OF fm])
  show ?thesis using m by (simp add: GMNlayer_forward_def p)
qed

theorem message_None_is_ones_witness:
  "message (GMNlayer_init 1 1 demo_weights) demo_x demo_x demo_edges (2, 2) None =
   message (GMNlayer_init 1 1 demo_weights) demo_x demo_x demo_edges (2, 2)
     (Some (ones (size0 demo_x) 1)) \<and>
   GMNlayer_forward (GMNlayer_init 1 1 demo_weights) demo_x demo_x demo_edges demo_edges
     None None =
   GMNlayer_forward (GMNlayer_init 1 1 demo_weights) demo_x demo_x demo_edges demo_edges
     (Some (ones (length demo_edges) 1)) (Some (ones (length demo_edges) 1))"
proof -
  have c: "cols demo_x = 1" by (simp add: demo_x_def)
  show ?thesis
    using c message_None_is_ones [where x_i = demo_x and in_channels = 1 and oc = 1
        and W = demo_weights and x_j = demo_x and ei = demo_edges and sz = "(2, 2)"
        and ?x1.0 = demo_x and ?x2.0 = demo_x and ?ei1.0 = demo_edges and ?ei2.0 = demo_edges]
    by simp
qed

subsection \<open>propagate_match\<close>

text \<open>
  A run on the example layer, with the keyword argument \<^verbatim>\<open>x\<close>: the loop over the
  arguments, the insertion of the special arguments and the call of \<^verbatim>\<open>match\<close> all go
  through, and \<^verbatim>\<open>match\<close> hands back \<^verbatim>\<open>None\<close>. The failure is the one of the
  reduction after it.
\<close>

lemma demo_layer_args:
  "match_args demo_layer = [''x_i'', ''x_j'']"
  "special_match_args demo_layer = [(0, ''edge_index_i''), (3, ''size_i'')]"
  "update_args demo_layer = []"
  "flow demo_layer = ''source_to_target''"
  by (simp_all add: demo_layer_def GMNlayer_init_def match_argspec_def special_args_def Let_def)

lemma demo_ij: "ij demo_layer ''_i'' = Some 1" "ij demo_layer ''_j'' = Some 0"
  by (simp_all add: ij_def demo_layer_args)


lemma propagate_match_reaches_match:
  "collect_match_args demo_layer demo_edges [''x'' \<mapsto> KTensor demo_x] (match_args demo_layer)
     ([None, None], []) =
   Some ([Some 2, Some 2],
         [PyTensor \<lparr>cols = 1, rws = [[3], [2], [2]]\<rparr>, PyTensor \<lparr>cols = 1, rws = [[2], [3], [2]]\<rparr>])"
  "insert_special_args demo_layer
     (\<lambda>name. if name = ''size'' then Some (PySeq [PyInt 2, PyInt 2])
              else if name = ''edge_index'' then Some (PyEdge demo_edges)
              else map_option of_kwarg ([''x'' \<mapsto> KTensor demo_x] name))
     (special_match_args demo_layer)
     [PyTensor \<lparr>cols = 1, rws = [[3], [2], [2]]\<rparr>, PyTensor \<lparr>cols = 1, rws = [[2], [3], [2]]\<rparr>] =
   Some [PyLong [1, 0, 0], PyTensor \<lparr>cols = 1, rws = [[3], [2], [2]]\<rparr>,
         PyTensor \<lparr>cols = 1, rws = [[2], [3], [2]]\<rparr>, PyInt 2]"
  "apply_match demo_layer
     [PyLong [1, 0, 0], PyTensor \<lparr>cols = 1, rws = [[3], [2], [2]]\<rparr>,
      PyTensor \<lparr>cols = 1, rws = [[2], [3], [2]]\<rparr>, PyInt 2] = Some PyNone"
    apply (simp add: demo_layer_args match_arg_step_def arg_suffix_def arg_stem_def demo_ij
      set_size_def index_select_def edge_row_def demo_edges_def demo_x_def size0_def)
   apply (simp add: demo_layer_args arg_suffix_def arg_stem_def demo_ij list_insert_def
      edge_row_def demo_edges_def)
  apply (simp add: apply_match_def match_def)
  done

lemma scatter_after_match:
  "(apply_match L margs \<bind> (\<lambda>out. scatter a out idx d \<bind> f)) = None"
  by (auto simp: apply_match_def match_def scatter_def split: list.splits Option.bind_splits)

text \<open>
  Claim C3. No call of \<^verbatim>\<open>propagate_match\<close> returns a tensor, whatever the layer, the
  \<^verbatim>\<open>edge_index\<close>, the \<^verbatim>\<open>size\<close> and the keyword arguments: \<^verbatim>\<open>match\<close> returns
  \<^verbatim>\<open>None\<close>, which the reduction that follows cannot take, so every run ends in an
  exception.
\<close>

theorem propagate_match_never_returns:
  "propagate_match L edge_index size_arg kwargs = None"
  by (simp add: propagate_match_def Let_def scatter_after_match
      split: prod.splits Option.bind_split)

subsection \<open>Message passing\<close>

lemma length_fold_scatter_step [simp]:
  "length (fold scatter_step ps acc) = length acc"
  by (induction ps arbitrary: acc) (simp_all add: scatter_step_def)

lemma fold_scatter_step_nth:
  assumes "i < length acc" and "list_all (\<lambda>p. 0 \<le> fst p) ps"
  shows "fold scatter_step ps acc ! i =
         fold (\<lambda>v a. vadd a v) (map snd (filter (\<lambda>p. fst p = int i) ps)) (acc ! i)"
  using assms
proof (induction ps arbitrary: acc)
  case Nil
  then show ?case by simp
next
  case (Cons p ps)
  have len: "i < length (scatter_step p acc)"
    using Cons.prems(1) by (simp add: scatter_step_def)
  have pos: "0 \<le> fst p" and rest: "list_all (\<lambda>p. 0 \<le> fst p) ps"
    using Cons.prems(2) by simp_all
  have step: "scatter_step p acc ! i = (if fst p = int i then vadd (acc ! i) (snd p) else acc ! i)"
    using Cons.prems(1) pos by (auto simp: scatter_step_def nth_list_update)
  show ?case
    using Cons.IH [OF len rest] step by simp
qed


lemma zip_map_upt:
  "zip (map f xs) (map g [0..<length xs]) = map (\<lambda>e. (f (xs ! e), g e)) [0..<length xs]"
  by (rule nth_equalityI) simp_all

lemma scatter_rows_incoming:
  "map snd (filter (\<lambda>p. fst p = int i) (zip (map snd ei) (map g [0..<length ei]))) =
   map g (incoming ei i)"
  by (simp add: zip_map_upt filter_map comp_def incoming_def)

lemma message_rows:
  assumes "in_features (fmessage L) = 3 * d"
    and "cols x_i = d" "cols x_j = d" "size0 x_i = n" "size0 x_j = n"
    and "valid_edge_weight ew n d"
  shows "message L x_i x_j ei sz ew =
         Some \<lparr>cols = out_features (fmessage L),
               rws = map (\<lambda>e. map (max 0)
                         (affine (weight (fmessage L)) (bias (fmessage L))
                            (rws x_i ! e @ rws x_j ! e @ edge_weight_row ew d e)))
                       [0..<n]\<rparr>"
proof (cases ew)
  case None
  with assms show ?thesis
    by (simp add: message_def cat_def ones_def size0_def Linear_forward_def relu_def
        edge_weight_row_def)
next
  case (Some w)
  with assms show ?thesis
    by (simp add: message_def cat_def size0_def Linear_forward_def relu_def
        edge_weight_row_def valid_edge_weight_def)
qed

lemma valid_edges_rows:
  assumes "valid_edges ei n"
  shows "list_all (\<lambda>k. 0 \<le> k \<and> k < int n) (edge_row ei 0)"
    and "list_all (\<lambda>k. 0 \<le> k \<and> k < int n) (edge_row ei 1)"
  using assms by (auto simp: valid_edges_def edge_row_def list_all_iff)

lemma propagate_rows:
  assumes L: "in_features (fmessage L) = 3 * cols x" "aggr L = ''add''"
      "flow L = ''source_to_target''"
    and ei: "valid_edges ei (size0 x)"
    and ew: "valid_edge_weight ew (length ei) (cols x)"
  shows "propagate L ei (size0 x, size0 x) x ew =
         Some \<lparr>cols = out_features (fmessage L),
               rws = map (\<lambda>i. vsum (out_features (fmessage L))
                                (map (edge_message L x ei ew) (incoming ei i)))
                       [0..<size0 x]\<rparr>"
proof -
  let ?n = "length ei"
  let ?xi = "\<lparr>cols = cols x, rws = map (\<lambda>k. rws x ! nat k) (edge_row ei 1)\<rparr>"
  let ?xj = "\<lparr>cols = cols x, rws = map (\<lambda>k. rws x ! nat k) (edge_row ei 0)\<rparr>"
  let ?g = "edge_message L x ei ew"
  let ?oc = "out_features (fmessage L)"
  have si: "index_select x 0 (edge_row ei 1) = Some ?xi"
    and sj: "index_select x 0 (edge_row ei 0) = Some ?xj"
    using valid_edges_rows [OF ei] by (simp_all add: index_select_def)
  have msg: "message L ?xi ?xj ei (size0 x, size0 x) ew = Some \<lparr>cols = ?oc, rws = map ?g [0..<?n]\<rparr>"
  proof -
    have "message L ?xi ?xj ei (size0 x, size0 x) ew =
         Some \<lparr>cols = ?oc,
               rws = map (\<lambda>e. map (max 0)
                         (affine (weight (fmessage L)) (bias (fmessage L))
                            (rws ?xi ! e @ rws ?xj ! e @ edge_weight_row ew (cols x) e)))
                       [0..<?n]\<rparr>"
      by (rule message_rows [OF L(1) _ _ _ _ ew]) (simp_all add: size0_def edge_row_def)
    moreover have "map (\<lambda>e. map (max 0)
                         (affine (weight (fmessage L)) (bias (fmessage L))
                            (rws ?xi ! e @ rws ?xj ! e @ edge_weight_row ew (cols x) e)))
                       [0..<?n] = map ?g [0..<?n]"
      by (simp add: edge_message_def edge_row_def)
    ultimately show ?thesis by simp
  qed
  have pos: "list_all (\<lambda>p. 0 \<le> fst p) (zip (map snd ei) (map ?g [0..<?n]))"
    using ei by (auto simp: valid_edges_def list_all_iff dest!: set_zip_leftD)
  have sc: "scatter_sum \<lparr>cols = ?oc, rws = map ?g [0..<?n]\<rparr> (edge_row ei 1) (size0 x) =
        Some \<lparr>cols = ?oc, rws = map (\<lambda>i. vsum ?oc (map ?g (incoming ei i))) [0..<size0 x]\<rparr>"
  proof -
    let ?acc = "replicate (size0 x) (replicate ?oc (0::real))"
    let ?ps = "zip (map snd ei) (map ?g [0..<?n])"
    have "fold scatter_step ?ps ?acc = map (\<lambda>i. vsum ?oc (map ?g (incoming ei i))) [0..<size0 x]"
    proof (rule nth_equalityI)
      show "length (fold scatter_step ?ps ?acc) =
            length (map (\<lambda>i. vsum ?oc (map ?g (incoming ei i))) [0..<size0 x])"
        by simp
    next
      fix i assume "i < length (fold scatter_step ?ps ?acc)"
      then have i: "i < size0 x" by simp
      then have "fold scatter_step ?ps ?acc ! i =
          fold (\<lambda>v a. vadd a v) (map snd (filter (\<lambda>p. fst p = int i) ?ps)) (?acc ! i)"
        using pos by (intro fold_scatter_step_nth) simp_all
      with i show "fold scatter_step ?ps ?acc ! i =
          map (\<lambda>i. vsum ?oc (map ?g (incoming ei i))) [0..<size0 x] ! i"
        by (simp add: scatter_rows_incoming vsum_def)
    qed
    then show ?thesis
      using valid_edges_rows(2) [OF ei]
      by (simp add: scatter_sum_def size0_def edge_row_def)
  qed
  show ?thesis
    using si sj msg sc L(2,3) by (simp add: propagate_def update_def)
qed

subsection \<open>Cross-graph attention\<close>


lemma softmax_vec_length [simp]: "length (softmax_vec r) = length r"
  by (simp add: softmax_vec_def)


lemma softmax_0_transposed:
  "map_option tensor_t (softmax T 0) =
   Some \<lparr>cols = size0 T, rws = map (\<lambda>j. softmax_vec (column T j)) [0..<cols T]\<rparr>"
  by (simp add: softmax_def tensor_t_def size0_def column_def softmax_vec_def comp_def)

lemma cross_graph_attention_value:
  assumes d: "cols x1 = cols x2"
  defines "S \<equiv> map (\<lambda>a. map (\<lambda>j. dot a (column (tensor_t x2) j)) [0..<size0 x2]) (rws x1)"
  defines "A1 \<equiv> \<lparr>cols = size0 x2, rws = map softmax_vec S\<rparr>"
  defines "A2 \<equiv> \<lparr>cols = size0 x1, rws = map (\<lambda>j. softmax_vec (map (\<lambda>r. r ! j) S)) [0..<size0 x2]\<rparr>"
  shows "cross_graph_attention x1 x2 =
         Some (A1, A2,
           \<lparr>cols = cols x1,
            rws = map2 vsub (rws x1)
                    (map (\<lambda>a. map (\<lambda>j. dot a (column x2 j)) [0..<cols x2]) (rws A1))\<rparr>,
           \<lparr>cols = cols x2,
            rws = map2 vsub (rws x2)
                    (map (\<lambda>a. map (\<lambda>j. dot a (column x1 j)) [0..<cols x1]) (rws A2))\<rparr>)"
proof -
  let ?scores = "\<lparr>cols = size0 x2, rws = S\<rparr>"
  have sc: "mm x1 (tensor_t x2) = Some ?scores"
    using d by (simp add: mm_def S_def tensor_t_def size0_def)
  have a1: "softmax ?scores (Suc 0) = Some A1"
    by (simp add: softmax_def A1_def)
  have a2: "map_option tensor_t (softmax ?scores 0) = Some A2"
    by (simp add: softmax_0_transposed A2_def column_def size0_def S_def)
  have m1: "mm A1 x2 =
      Some \<lparr>cols = cols x2, rws = map (\<lambda>a. map (\<lambda>j. dot a (column x2 j)) [0..<cols x2]) (rws A1)\<rparr>"
    by (simp add: mm_def A1_def)
  have m2: "mm A2 x1 =
      Some \<lparr>cols = cols x1, rws = map (\<lambda>a. map (\<lambda>j. dot a (column x1 j)) [0..<cols x1]) (rws A2)\<rparr>"
    by (simp add: mm_def A2_def)
  have s1: "sub x1 \<lparr>cols = cols x2, rws = map (\<lambda>a. map (\<lambda>j. dot a (column x2 j)) [0..<cols x2]) (rws A1)\<rparr> =
      Some \<lparr>cols = cols x1, rws = map2 vsub (rws x1)
                    (map (\<lambda>a. map (\<lambda>j. dot a (column x2 j)) [0..<cols x2]) (rws A1))\<rparr>"
    using d by (simp add: sub_def size0_def A1_def S_def)
  have s2: "sub x2 \<lparr>cols = cols x1, rws = map (\<lambda>a. map (\<lambda>j. dot a (column x1 j)) [0..<cols x1]) (rws A2)\<rparr> =
      Some \<lparr>cols = cols x2, rws = map2 vsub (rws x2)
                    (map (\<lambda>a. map (\<lambda>j. dot a (column x1 j)) [0..<cols x1]) (rws A2))\<rparr>"
    using d by (simp add: sub_def size0_def A2_def)
  show ?thesis
    unfolding cross_graph_attention_def by (simp add: sc a1 a2 m1 m2 s1 s2)
qed


lemma map2_vsub_nth:
  "i < length xs \<Longrightarrow> length ys = length xs \<Longrightarrow> map2 vsub xs ys ! i = vsub (xs ! i) (ys ! i)"
  by simp




subsection \<open>The layer as a whole\<close>

lemma GMNlayer_init_fields:
  "in_features (fmessage (GMNlayer_init ic oc W)) = 3 * ic"
  "out_features (fmessage (GMNlayer_init ic oc W)) = oc"
  "aggr (GMNlayer_init ic oc W) = ''add''"
  "flow (GMNlayer_init ic oc W) = ''source_to_target''"
  "input_size (fnode (GMNlayer_init ic oc W)) = 2 * oc"
  "hidden_size (fnode (GMNlayer_init ic oc W)) = oc"
  by (simp_all add: GMNlayer_init_def Let_def)

lemma sub_shape: "sub A B = Some C \<Longrightarrow> cols C = cols A \<and> size0 C = size0 A"
  by (auto simp: sub_def size0_def split: if_splits)

lemma cat2_value:
  assumes "size0 B = size0 A"
  shows "cat [A, B] 1 =
         Some \<lparr>cols = cols A + cols B, rws = map (\<lambda>i. rws A ! i @ rws B ! i) [0..<size0 A]\<rparr>"
  using assms by (simp add: cat_def)

lemma GRUCell_forward_value:
  assumes "cols c = input_size G" "cols h = hidden_size G" "size0 c = size0 h"
  shows "GRUCell_forward G c h =
         Some \<lparr>cols = hidden_size G, rws = map2 (gru_row G) (rws c) (rws h)\<rparr>"
  using assms by (simp add: GRUCell_forward_def)

lemma propagate_init_rows:
  assumes "cols x = ic" "valid_edges ei (size0 x)" "valid_edge_weight ew (length ei) ic"
  shows "propagate (GMNlayer_init ic oc W) ei (size0 x, size0 x) x ew =
         Some \<lparr>cols = oc,
               rws = map (\<lambda>i. vsum oc (map (edge_message (GMNlayer_init ic oc W) x ei ew)
                                         (incoming ei i)))
                       [0..<size0 x]\<rparr>"
  using propagate_rows [of "GMNlayer_init ic oc W" x ei ew] assms
  by (simp add: GMNlayer_init_fields)

lemma GMNlayer_forward_steps:
  assumes x: "cols x1 = d" "cols x2 = d"
    and e: "valid_edges edge_index1 (size0 x1)" "valid_edges edge_index2 (size0 x2)"
    and w: "valid_edge_weight edge_weight1 (length edge_index1) d"
           "valid_edge_weight edge_weight2 (length edge_index2) d"
  shows "\<exists>m1 m2 scores attn_1 attn_2 attnsum_1 attnsum_2 u1 u2 c1 c2 h1 h2.
     propagate (GMNlayer_init d d W) edge_index1 (size0 x1, size0 x1) x1 edge_weight1 = Some m1 \<and>
     propagate (GMNlayer_init d d W) edge_index2 (size0 x2, size0 x2) x2 edge_weight2 = Some m2 \<and>
     mm x1 (tensor_t x2) = Some scores \<and>
     softmax scores 1 = Some attn_1 \<and>
     map_option tensor_t (softmax scores 0) = Some attn_2 \<and>
     mm attn_1 x2 = Some attnsum_1 \<and> sub x1 attnsum_1 = Some u1 \<and>
     mm attn_2 x1 = Some attnsum_2 \<and> sub x2 attnsum_2 = Some u2 \<and>
     cat [m1, u1] 1 = Some c1 \<and> GRUCell_forward (fnode (GMNlayer_init d d W)) c1 x1 = Some h1 \<and>
     cat [m2, u2] 1 = Some c2 \<and> GRUCell_forward (fnode (GMNlayer_init d d W)) c2 x2 = Some h2 \<and>
     GMNlayer_forward (GMNlayer_init d d W) x1 x2 edge_index1 edge_index2
       edge_weight1 edge_weight2 = Some (h1, h2) \<and>
     size0 h1 = size0 x1 \<and> cols h1 = d \<and> size0 h2 = size0 x2 \<and> cols h2 = d"
proof -
  let ?L = "GMNlayer_init d d W"
  obtain m1 where m1: "propagate ?L edge_index1 (size0 x1, size0 x1) x1 edge_weight1 = Some m1"
      "cols m1 = d" "size0 m1 = size0 x1"
    using propagate_init_rows [OF x(1) e(1) w(1), of d W] by (simp add: size0_def)
  obtain m2 where m2: "propagate ?L edge_index2 (size0 x2, size0 x2) x2 edge_weight2 = Some m2"
      "cols m2 = d" "size0 m2 = size0 x2"
    using propagate_init_rows [OF x(2) e(2) w(2), of d W] by (simp add: size0_def)
  have "cols x1 = cols x2" using x by simp
  from cross_graph_attention_value [OF this]
  obtain attn_1 attn_2 u1 u2 where "cross_graph_attention x1 x2 = Some (attn_1, attn_2, u1, u2)"
    by blast
  then obtain scores attnsum_1 attnsum_2 where a:
      "mm x1 (tensor_t x2) = Some scores" "softmax scores 1 = Some attn_1"
      "map_option tensor_t (softmax scores 0) = Some attn_2"
      "mm attn_1 x2 = Some attnsum_1" "mm attn_2 x1 = Some attnsum_2"
      "sub x1 attnsum_1 = Some u1" "sub x2 attnsum_2 = Some u2"
    unfolding cross_graph_attention_def by (auto simp: bind_eq_Some_conv)
  have u1: "cols u1 = d" "size0 u1 = size0 x1" using sub_shape [OF a(6)] x by simp_all
  have u2: "cols u2 = d" "size0 u2 = size0 x2" using sub_shape [OF a(7)] x by simp_all
  obtain c1 where c1: "cat [m1, u1] 1 = Some c1" "cols c1 = 2 * d" "size0 c1 = size0 x1"
    using cat2_value [of u1 m1] m1 u1 by (simp add: size0_def)
  obtain c2 where c2: "cat [m2, u2] 1 = Some c2" "cols c2 = 2 * d" "size0 c2 = size0 x2"
    using cat2_value [of u2 m2] m2 u2 by (simp add: size0_def)
  obtain h1 where h1: "GRUCell_forward (fnode ?L) c1 x1 = Some h1" "cols h1 = d" "size0 h1 = size0 x1"
    using GRUCell_forward_value [of c1 "fnode ?L" x1] c1 x
    by (simp add: GMNlayer_init_fields size0_def)
  obtain h2 where h2: "GRUCell_forward (fnode ?L) c2 x2 = Some h2" "cols h2 = d" "size0 h2 = size0 x2"
    using GRUCell_forward_value [of c2 "fnode ?L" x2] c2 x
    by (simp add: GMNlayer_init_fields size0_def)
  have fw: "GMNlayer_forward ?L x1 x2 edge_index1 edge_index2 edge_weight1 edge_weight2 = Some (h1, h2)"
    unfolding GMNlayer_forward_def
    by (simp add: m1(1) m2(1) a c1(1) c2(1) h1(1) h2(1) del: One_nat_def)
  show ?thesis
    using m1 m2 a c1 c2 h1 h2 fw by blast
qed








section \<open>Properties of GMNnet\<close>

subsection \<open>Embedding, layer and pooling\<close>

lemma Embedding_forward_value:
  assumes "valid_indices xs (num_embeddings E)"
  shows "Embedding_forward E xs =
         Some \<lparr>cols3 = embedding_dim E, slabs = map (\<lambda>k. [rws (embedding_weight E) ! nat k]) xs\<rparr>"
  using assms by (simp add: Embedding_forward_def valid_indices_def)

lemma squeeze1_embedding:
  assumes "Embedding_forward E xs = Some e"
  shows "cols (squeeze1 e) = embedding_dim E" and "size0 (squeeze1 e) = length xs"
    and "wf_Embedding E \<Longrightarrow> wf_tensor (squeeze1 e)"
proof -
  from assms have v: "list_all (\<lambda>k. 0 \<le> k \<and> k < int (num_embeddings E)) xs"
    and e: "e = \<lparr>cols3 = embedding_dim E, slabs = map (\<lambda>k. [rws (embedding_weight E) ! nat k]) xs\<rparr>"
    by (auto simp: Embedding_forward_def split: if_splits)
  show "cols (squeeze1 e) = embedding_dim E" "size0 (squeeze1 e) = length xs"
    by (simp_all add: e squeeze1_def size0_def)
  show "wf_tensor (squeeze1 e)" if "wf_Embedding E"
  proof -
    have "length (rws (embedding_weight E) ! nat k) = embedding_dim E" if "k \<in> set xs" for k
    proof -
      from v that have "0 \<le> k" "k < int (num_embeddings E)" by (auto simp: list_all_iff)
      then have "nat k < length (rws (embedding_weight E))"
        using \<open>wf_Embedding E\<close> by (simp add: wf_Embedding_def size0_def)
      then have "rws (embedding_weight E) ! nat k \<in> set (rws (embedding_weight E))" by simp
      then show ?thesis
        using \<open>wf_Embedding E\<close> by (auto simp: wf_Embedding_def wf_tensor_def list_all_iff)
    qed
    then show ?thesis by (simp add: e squeeze1_def wf_tensor_def list_all_iff comp_def)
  qed
qed

lemma length_affine:
  "length (affine W b x) = min (size0 W) (length b)"
  by (simp add: affine_def vadd_def size0_def)

lemma length_gru_row:
  assumes "wf_GRUCell G" and "length h = hidden_size G"
  shows "length (gru_row G x h) = hidden_size G"
  using assms
  by (simp add: gru_row_def Let_def vadd_def vmul_def length_affine wf_GRUCell_def)

lemma GRUCell_forward_wf:
  assumes "GRUCell_forward G c h = Some h'" and "wf_GRUCell G" and "wf_tensor h"
  shows "wf_tensor h'"
proof -
  from assms(1) have hv: "h' = \<lparr>cols = hidden_size G, rws = map2 (gru_row G) (rws c) (rws h)\<rparr>"
    and ch: "cols h = hidden_size G"
    by (auto simp: GRUCell_forward_def split: if_splits)
  have "length (gru_row G x r) = hidden_size G" if "(x, r) \<in> set (zip (rws c) (rws h))" for x r
  proof -
    from that have "r \<in> set (rws h)" by (rule set_zip_rightD)
    with assms(3) ch have "length r = hidden_size G" by (auto simp: wf_tensor_def list_all_iff)
    with assms(2) show ?thesis by (rule length_gru_row)
  qed
  then show ?thesis by (auto simp: hv wf_tensor_def list_all_iff)
qed

lemma GMNlayer_forward_wf:
  assumes "GMNlayer_forward L x1 x2 ei1 ei2 w1 w2 = Some (h1, h2)"
    and "wf_GRUCell (fnode L)" and "wf_tensor x1" and "wf_tensor x2"
  shows "wf_tensor h1 \<and> wf_tensor h2"
proof -
  from assms(1) obtain c1 c2 where "GRUCell_forward (fnode L) c1 x1 = Some h1"
      "GRUCell_forward (fnode L) c2 x2 = Some h2"
    unfolding GMNlayer_forward_def by (auto simp: bind_eq_Some_conv simp del: One_nat_def)
  then show ?thesis using assms(2-4) by (auto intro: GRUCell_forward_wf)
qed

lemma funpow_max_zero: "(max (0::int) ^^ n) 0 = 0"
  by (induction n) simp_all

lemma scatter_step_wf:
  assumes "list_all (\<lambda>r. length r = d) acc" and "length (snd p) = d"
  shows "list_all (\<lambda>r. length r = d) (scatter_step p acc)"
proof (cases "nat (fst p) < length acc")
  case True
  then have "length (vadd (acc ! nat (fst p)) (snd p)) = d"
    using assms by (simp add: vadd_def list_all_length)
  moreover have "set (scatter_step p acc) \<subseteq>
      insert (vadd (acc ! nat (fst p)) (snd p)) (set acc)"
    unfolding scatter_step_def by (rule set_update_subset_insert)
  ultimately show ?thesis
    using assms(1) by (auto simp: list_all_iff)
next
  case False
  with assms(1) show ?thesis by (simp add: scatter_step_def list_update_beyond)
qed

lemma fold_scatter_step_wf:
  assumes "list_all (\<lambda>r. length r = d) acc" and "list_all (\<lambda>p. length (snd p) = d) ps"
  shows "list_all (\<lambda>r. length r = d) (fold scatter_step ps acc)"
  using assms by (induction ps arbitrary: acc) (simp_all add: scatter_step_wf)

lemma length_graph_softmax [simp]:
  "length (graph_softmax g batch) = min (length g) (length batch)"
  by (simp add: graph_softmax_def)

lemma pool_single_graph:
  assumes "cols x = in_features (gate_nn P)" and "out_features (gate_nn P) = 1"
  shows "\<exists>hg. GlobalAttention_forward P x (zeros_long (size0 x)) = Some hg \<and>
              cols hg = cols x \<and> size0 hg = (if size0 x = 0 then 0 else 1) \<and>
              (wf_tensor x \<longrightarrow> wf_tensor hg)"
proof -
  let ?n = "size0 x"
  let ?batch = "zeros_long ?n"
  let ?ds = "if ?batch = [] then 0 else nat (fold max ?batch (hd ?batch) + 1)"
  let ?g0 = "\<lparr>cols = 1, rws = map (map sigmoid) (map (affine (weight (gate_nn P)) (bias (gate_nn P))) (rws x))\<rparr>"
  let ?gate = "graph_softmax (map hd (rws ?g0)) ?batch"
  let ?src = "\<lparr>cols = cols x, rws = map2 (\<lambda>w r. map ((*) w) r) ?gate (rws x)\<rparr>"
  have seq: "Sequential_forward (gate_nn P) x = Some ?g0"
    using assms by (simp add: Sequential_forward_def Linear_forward_def)
  have ds: "?ds = (if ?n = 0 then 0 else 1)"
    by (cases ?n) (simp_all add: zeros_long_def funpow_max_zero)
  have len: "length ?batch = size0 ?src"
    by (simp add: zeros_long_def size0_def)
  have idx: "list_all (\<lambda>k. 0 \<le> k \<and> k < int ?ds) ?batch"
    unfolding ds by (simp add: zeros_long_def list_all_iff)
  let ?hg = "\<lparr>cols = cols x,
              rws = fold scatter_step (zip ?batch (rws ?src)) (replicate ?ds (replicate (cols x) 0))\<rparr>"
  have sc: "scatter_sum ?src ?batch ?ds = Some ?hg"
    using len idx by (simp add: scatter_sum_def)
  have run: "GlobalAttention_forward P x ?batch = Some ?hg"
    unfolding GlobalAttention_forward_def Let_def seq
    using sc by (simp add: zeros_long_def size0_def)
  have sz: "size0 ?hg = (if ?n = 0 then 0 else 1)"
  proof -
    have "size0 ?hg = ?ds" unfolding size0_def [of ?hg] by simp
    then show ?thesis by (simp only: ds)
  qed
  have wf: "wf_tensor ?hg" if "wf_tensor x"
  proof -
    have "list_all (\<lambda>p. length (snd p) = cols x) (zip ?batch (rws ?src))"
      using that
      by (auto simp: list_all_iff wf_tensor_def dest!: set_zip_rightD)
    moreover have "list_all (\<lambda>r. length r = cols x) (replicate ?ds (replicate (cols x) (0::real)))"
      by (simp add: list_all_iff)
    ultimately have "list_all (\<lambda>r. length r = cols x)
        (fold scatter_step (zip ?batch (rws ?src)) (replicate ?ds (replicate (cols x) 0)))"
      by (intro fold_scatter_step_wf)
    then show ?thesis unfolding wf_tensor_def by simp
  qed
  show ?thesis
    apply (rule exI [of _ ?hg])
    apply (intro conjI impI)
       apply (fact run)
      apply simp
     apply (fact sz)
    apply (erule wf)
    done
qed

subsection \<open>The network as a whole\<close>

lemma GMNnet_init_fields:
  "num_layers (GMNnet_init v d n W) = n"
  "num_embeddings (embed (GMNnet_init v d n W)) = v"
  "embedding_dim (embed (GMNnet_init v d n W)) = d"
  "num_embeddings (edge_embed (GMNnet_init v d n W)) = 20"
  "embedding_dim (edge_embed (GMNnet_init v d n W)) = d"
  "gmnlayer (GMNnet_init v d n W) = GMNlayer_init d d (gmnlayer_weights W)"
  "in_features (mlp_gate (GMNnet_init v d n W)) = d"
  "out_features (mlp_gate (GMNnet_init v d n W)) = 1"
  "gate_nn (pool (GMNnet_init v d n W)) = mlp_gate (GMNnet_init v d n W)"
  by (simp_all add: GMNnet_init_def Let_def)

lemma GMNnet_forward_unfold:
  "GMNnet_forward M (x1, x2, edge_index1, edge_index2, edge_attr1, edge_attr2) = do {
     e1 \<leftarrow> Embedding_forward (embed M) x1;
     e2 \<leftarrow> Embedding_forward (embed M) x2;
     (edge_weight1, edge_weight2) \<leftarrow> edge_weights M edge_attr1 edge_attr2;
     (y1, y2) \<leftarrow> gmn_loop (num_layers M) (gmnlayer M) edge_index1 edge_index2
                   edge_weight1 edge_weight2 (squeeze1 e1, squeeze1 e2);
     hg1 \<leftarrow> GlobalAttention_forward (pool M) y1 (zeros_long (size0 y1));
     hg2 \<leftarrow> GlobalAttention_forward (pool M) y2 (zeros_long (size0 y2));
     Some (hg1, hg2) }"
  by (simp add: GMNnet_forward_def edge_weights_def Let_def)

lemma layer_step_None: "(layer_step L ei1 ei2 w1 w2 ^^ n) None = None"
  by (induction n) (simp_all add: layer_step_def)

lemma gmn_loop_funpow:
  "gmn_loop n L ei1 ei2 w1 w2 s = (layer_step L ei1 ei2 w1 w2 ^^ n) (Some s)"
proof (induction n arbitrary: s)
  case 0
  then show ?case by (cases s) simp
next
  case (Suc n)
  let ?step = "layer_step L ei1 ei2 w1 w2"
  obtain x1 x2 where s: "s = (x1, x2)" by (cases s)
  have step: "?step (Some s) = GMNlayer_forward L x1 x2 ei1 ei2 w1 w2"
    by (simp add: layer_step_def s)
  have "(?step ^^ Suc n) (Some s) = (?step ^^ n) (?step (Some s))"
    by (simp add: funpow_swap1)
  also have "\<dots> = (?step ^^ n) (GMNlayer_forward L x1 x2 ei1 ei2 w1 w2)"
    by (simp only: step)
  also have "\<dots> = gmn_loop (Suc n) L ei1 ei2 w1 w2 s"
  proof (cases "GMNlayer_forward L x1 x2 ei1 ei2 w1 w2")
    case None
    then show ?thesis by (simp add: s layer_step_None)
  next
    case (Some s')
    obtain y1 y2 where "s' = (y1, y2)" by (cases s')
    with Some Suc.IH [of s'] show ?thesis by (simp add: s)
  qed
  finally show ?case by simp
qed

lemma gmn_loop_ok:
  assumes "cols x1 = d" "cols x2 = d"
    and "valid_edges ei1 (size0 x1)" "valid_edges ei2 (size0 x2)"
    and "valid_edge_weight w1 (length ei1) d" "valid_edge_weight w2 (length ei2) d"
  shows "\<exists>y1 y2. gmn_loop n (GMNlayer_init d d W) ei1 ei2 w1 w2 (x1, x2) = Some (y1, y2) \<and>
           cols y1 = d \<and> cols y2 = d \<and> size0 y1 = size0 x1 \<and> size0 y2 = size0 x2 \<and>
           (wf_GRUCell (fnode (GMNlayer_init d d W)) \<longrightarrow> wf_tensor x1 \<longrightarrow> wf_tensor x2 \<longrightarrow>
              wf_tensor y1 \<and> wf_tensor y2)"
  using assms
proof (induction n arbitrary: x1 x2)
  case 0
  then show ?case by simp
next
  case (Suc n)
  let ?L = "GMNlayer_init d d W"
  from GMNlayer_forward_steps [OF Suc.prems, of W]
  obtain h1 h2 where fw: "GMNlayer_forward ?L x1 x2 ei1 ei2 w1 w2 = Some (h1, h2)"
    and sh: "size0 h1 = size0 x1" "cols h1 = d" "size0 h2 = size0 x2" "cols h2 = d"
    by blast
  have e: "valid_edges ei1 (size0 h1)" "valid_edges ei2 (size0 h2)"
    using Suc.prems sh by simp_all
  from Suc.IH [OF sh(2) sh(4) e Suc.prems(5,6)]
  obtain y1 y2 where loop: "gmn_loop n ?L ei1 ei2 w1 w2 (h1, h2) = Some (y1, y2)"
    and y: "cols y1 = d" "cols y2 = d" "size0 y1 = size0 h1" "size0 y2 = size0 h2"
    and wf: "wf_GRUCell (fnode ?L) \<longrightarrow> wf_tensor h1 \<longrightarrow> wf_tensor h2 \<longrightarrow>
              wf_tensor y1 \<and> wf_tensor y2"
    by blast
  have "gmn_loop (Suc n) ?L ei1 ei2 w1 w2 (x1, x2) = Some (y1, y2)"
    by (simp add: fw loop)
  moreover have "wf_tensor y1 \<and> wf_tensor y2"
    if "wf_GRUCell (fnode ?L)" "wf_tensor x1" "wf_tensor x2"
    using GMNlayer_forward_wf [OF fw that] wf that(1) by simp
  ultimately show ?case using y sh by auto
qed

lemma edge_weights_ok:
  assumes "valid_edge_attrs ea1 ea2 ei1 ei2"
  shows "\<exists>w1 w2. edge_weights (GMNnet_init v d n W) ea1 ea2 = Some (w1, w2) \<and>
           valid_edge_weight w1 (length ei1) d \<and> valid_edge_weight w2 (length ei2) d"
proof (cases ea1)
  case None
  then show ?thesis by (simp add: edge_weights_def valid_edge_weight_def)
next
  case (Some a1)
  let ?M = "GMNnet_init v d n W"
  from assms Some obtain a2 where a2: "ea2 = Some a2"
    and v: "valid_indices a1 20" "valid_indices a2 20"
      "length a1 = length ei1" "length a2 = length ei2"
    by (auto simp: valid_edge_attrs_def split: option.splits)
  obtain e1 where e1: "Embedding_forward (edge_embed ?M) a1 = Some e1"
    using Embedding_forward_value [of a1 "edge_embed ?M"] v by (simp add: GMNnet_init_fields)
  obtain e2 where e2: "Embedding_forward (edge_embed ?M) a2 = Some e2"
    using Embedding_forward_value [of a2 "edge_embed ?M"] v by (simp add: GMNnet_init_fields)
  have "edge_weights ?M ea1 ea2 = Some (Some (squeeze1 e1), Some (squeeze1 e2))"
    by (simp add: edge_weights_def Some a2 e1 e2)
  moreover have "valid_edge_weight (Some (squeeze1 e1)) (length ei1) d"
      "valid_edge_weight (Some (squeeze1 e2)) (length ei2) d"
    using squeeze1_embedding(1,2) [OF e1] squeeze1_embedding(1,2) [OF e2] v
    by (simp_all add: valid_edge_weight_def GMNnet_init_fields)
  ultimately show ?thesis by blast
qed

lemma GMNnet_forward_chain:
  fixes v d n :: nat and W :: GMNnet_weights
  assumes "valid_gmn_data v (x1, x2, ei1, ei2, ea1, ea2)"
  defines "M \<equiv> GMNnet_init v d n W"
  shows "\<exists>e1 e2 w1 w2 y1 y2 hg1 hg2.
     Embedding_forward (embed M) x1 = Some e1 \<and>
     Embedding_forward (embed M) x2 = Some e2 \<and>
     edge_weights M ea1 ea2 = Some (w1, w2) \<and>
     gmn_loop n (gmnlayer M) ei1 ei2 w1 w2 (squeeze1 e1, squeeze1 e2) = Some (y1, y2) \<and>
     GlobalAttention_forward (pool M) y1 (zeros_long (size0 y1)) = Some hg1 \<and>
     GlobalAttention_forward (pool M) y2 (zeros_long (size0 y2)) = Some hg2 \<and>
     GMNnet_forward M (x1, x2, ei1, ei2, ea1, ea2) = Some (hg1, hg2) \<and>
     size0 y1 = length x1 \<and> size0 y2 = length x2 \<and>
     cols hg1 = d \<and> cols hg2 = d \<and>
     size0 hg1 = (if x1 = [] then 0 else 1) \<and> size0 hg2 = (if x2 = [] then 0 else 1) \<and>
     (wf_GMNnet M \<longrightarrow> wf_tensor hg1 \<and> wf_tensor hg2)"
proof -
  from assms(1) have vx: "valid_indices x1 v" "valid_indices x2 v"
    and ve: "valid_edges ei1 (length x1)" "valid_edges ei2 (length x2)"
    and va: "valid_edge_attrs ea1 ea2 ei1 ei2"
    by (simp_all add: valid_gmn_data_def)
  obtain e1 where e1: "Embedding_forward (embed M) x1 = Some e1"
    using Embedding_forward_value [of x1 "embed M"] vx by (simp add: M_def GMNnet_init_fields)
  obtain e2 where e2: "Embedding_forward (embed M) x2 = Some e2"
    using Embedding_forward_value [of x2 "embed M"] vx by (simp add: M_def GMNnet_init_fields)
  note s1 = squeeze1_embedding [OF e1] and s2 = squeeze1_embedding [OF e2]
  have c: "cols (squeeze1 e1) = d" "cols (squeeze1 e2) = d"
    using s1(1) s2(1) by (simp_all add: M_def GMNnet_init_fields)
  obtain w1 w2 where w: "edge_weights M ea1 ea2 = Some (w1, w2)"
      "valid_edge_weight w1 (length ei1) d" "valid_edge_weight w2 (length ei2) d"
    using edge_weights_ok [OF va, of v d n W] unfolding M_def by blast
  have ve': "valid_edges ei1 (size0 (squeeze1 e1))" "valid_edges ei2 (size0 (squeeze1 e2))"
    using ve s1(2) s2(2) by simp_all
  let ?L = "GMNlayer_init d d (gmnlayer_weights W)"
  have L: "gmnlayer M = ?L" by (simp add: M_def GMNnet_init_fields)
  from gmn_loop_ok [OF c ve' w(2,3), of n "gmnlayer_weights W"]
  obtain y1 y2 where loop: "gmn_loop n ?L ei1 ei2 w1 w2 (squeeze1 e1, squeeze1 e2) = Some (y1, y2)"
    and y: "cols y1 = d" "cols y2 = d" "size0 y1 = size0 (squeeze1 e1)"
      "size0 y2 = size0 (squeeze1 e2)"
    and ywf: "wf_GRUCell (fnode ?L) \<longrightarrow> wf_tensor (squeeze1 e1) \<longrightarrow> wf_tensor (squeeze1 e2) \<longrightarrow>
              wf_tensor y1 \<and> wf_tensor y2"
    by blast
  have g: "cols y1 = in_features (gate_nn (pool M))" "cols y2 = in_features (gate_nn (pool M))"
      "out_features (gate_nn (pool M)) = 1"
    using y by (simp_all add: M_def GMNnet_init_fields)
  from pool_single_graph [OF g(1) g(3)]
  obtain hg1 where p1: "GlobalAttention_forward (pool M) y1 (zeros_long (size0 y1)) = Some hg1"
    and h1: "cols hg1 = cols y1" "size0 hg1 = (if size0 y1 = 0 then 0 else 1)"
      "wf_tensor y1 \<longrightarrow> wf_tensor hg1"
    by blast
  from pool_single_graph [OF g(2) g(3)]
  obtain hg2 where p2: "GlobalAttention_forward (pool M) y2 (zeros_long (size0 y2)) = Some hg2"
    and h2: "cols hg2 = cols y2" "size0 hg2 = (if size0 y2 = 0 then 0 else 1)"
      "wf_tensor y2 \<longrightarrow> wf_tensor hg2"
    by blast
  have nl: "num_layers M = n" by (simp add: M_def GMNnet_init_fields)
  have fw: "GMNnet_forward M (x1, x2, ei1, ei2, ea1, ea2) = Some (hg1, hg2)"
    unfolding GMNnet_forward_unfold by (simp add: e1 e2 w(1) nl L loop p1 p2)
  have sz: "size0 y1 = length x1" "size0 y2 = length x2"
    using y s1(2) s2(2) by simp_all
  have wf: "wf_tensor hg1 \<and> wf_tensor hg2" if "wf_GMNnet M"
  proof -
    from that have "wf_Embedding (embed M)" "wf_GRUCell (fnode ?L)"
      by (simp_all add: wf_GMNnet_def wf_GMNlayer_def L)
    with s1(3) s2(3) ywf h1(3) h2(3) show ?thesis by blast
  qed
  show ?thesis
    apply (rule exI [of _ e1], rule exI [of _ e2], rule exI [of _ w1], rule exI [of _ w2])
    apply (rule exI [of _ y1], rule exI [of _ y2], rule exI [of _ hg1], rule exI [of _ hg2])
    using e1 e2 w(1) loop p1 p2 fw sz h1(1,2) h2(1,2) y(1,2) wf
    by (simp add: L)
qed

lemma demo_data_valid: "valid_gmn_data 2 demo_data" "valid_gmn_data 2 demo_data_empty"
  by (simp_all add: valid_gmn_data_def demo_data_def demo_data_empty_def valid_indices_def
      valid_edges_def demo_edges_def valid_edge_attrs_def)

lemma demo_net_wf: "wf_GMNnet demo_net"
  by (simp add: wf_GMNnet_def demo_net_def GMNnet_init_def demo_net_weights_def Let_def
      wf_Embedding_def wf_tensor_def size0_def wf_GMNlayer_def GMNlayer_init_def
      demo_weights_def wf_Linear_def wf_GRUCell_def list_all_iff)

text \<open>
  Claim C2, as amended. On well-formed input \<^verbatim>\<open>GMNnet.forward\<close> returns a pair
  \<open>(hg1, hg2)\<close> computed in three stages: the node tokens of both graphs go through the one
  table \<^verbatim>\<open>embed\<close>; the one layer \<^verbatim>\<open>gmnlayer\<close> is applied exactly \<open>n\<close> times, \<open>n\<close> being
  the \<^verbatim>\<open>num_layers\<close> the network was constructed with; and the node states of each graph
  are pooled by the gated attention pooling built on \<^verbatim>\<open>mlp_gate\<close>, to a single vector of
  \<open>embedding_dim\<close> entries when the graph has at least one node, and to a tensor without
  rows when it has none.
\<close>

theorem GMNnet_forward_stages:
  fixes vocablen d n :: nat and W :: GMNnet_weights
  assumes "valid_gmn_data vocablen (x1, x2, edge_index1, edge_index2, edge_attr1, edge_attr2)"
  defines "M \<equiv> GMNnet_init vocablen d n W"
  shows "num_layers M = n \<and> gate_nn (pool M) = mlp_gate M \<and>
    (\<exists>e1 e2 w1 w2 y1 y2 hg1 hg2.
       Embedding_forward (embed M) x1 = Some e1 \<and>
       Embedding_forward (embed M) x2 = Some e2 \<and>
       edge_weights M edge_attr1 edge_attr2 = Some (w1, w2) \<and>
       (layer_step (gmnlayer M) edge_index1 edge_index2 w1 w2 ^^ n)
          (Some (squeeze1 e1, squeeze1 e2)) = Some (y1, y2) \<and>
       size0 y1 = length x1 \<and> size0 y2 = length x2 \<and>
       GlobalAttention_forward (pool M) y1 (zeros_long (size0 y1)) = Some hg1 \<and>
       GlobalAttention_forward (pool M) y2 (zeros_long (size0 y2)) = Some hg2 \<and>
       GMNnet_forward M (x1, x2, edge_index1, edge_index2, edge_attr1, edge_attr2) =
         Some (hg1, hg2) \<and>
       cols hg1 = d \<and> cols hg2 = d \<and>
       size0 hg1 = (if x1 = [] then 0 else 1) \<and> size0 hg2 = (if x2 = [] then 0 else 1) \<and>
       (wf_GMNnet M \<longrightarrow> wf_tensor hg1 \<and> wf_tensor hg2))"
proof -
  from GMNnet_forward_chain [OF assms(1), of d n W]
  obtain e1 e2 w1 w2 y1 y2 hg1 hg2 where
    c: "Embedding_forward (embed M) x1 = Some e1"
       "Embedding_forward (embed M) x2 = Some e2"
       "edge_weights M edge_attr1 edge_attr2 = Some (w1, w2)"
       "gmn_loop n (gmnlayer M) edge_index1 edge_index2 w1 w2 (squeeze1 e1, squeeze1 e2) =
          Some (y1, y2)"
       "GlobalAttention_forward (pool M) y1 (zeros_long (size0 y1)) = Some hg1"
       "GlobalAttention_forward (pool M) y2 (zeros_long (size0 y2)) = Some hg2"
       "GMNnet_forward M (x1, x2, edge_index1, edge_index2, edge_attr1, edge_attr2) =
          Some (hg1, hg2)"
    and sh: "size0 y1 = length x1" "size0 y2 = length x2" "cols hg1 = d" "cols hg2 = d"
       "size0 hg1 = (if x1 = [] then 0 else 1)" "size0 hg2 = (if x2 = [] then 0 else 1)"
       "wf_GMNnet M \<longrightarrow> wf_tensor hg1 \<and> wf_tensor hg2"
    unfolding M_def by blast
  have it: "(layer_step (gmnlayer M) edge_index1 edge_index2 w1 w2 ^^ n)
          (Some (squeeze1 e1, squeeze1 e2)) = Some (y1, y2)"
    using c(4) by (simp only: gmn_loop_funpow)
  have f: "num_layers M = n" "gate_nn (pool M) = mlp_gate M"
    by (simp_all add: M_def GMNnet_init_fields)
  show ?thesis
    apply (intro conjI)
      apply (fact f)
     apply (fact f)
    apply (rule exI [of _ e1], rule exI [of _ e2], rule exI [of _ w1], rule exI [of _ w2])
    apply (rule exI [of _ y1], rule exI [of _ y2], rule exI [of _ hg1], rule exI [of _ hg2])
    apply (intro conjI)
    apply (fact c it sh)+
    done
qed

theorem GMNnet_forward_stages_witness:
  "num_layers demo_net = 2 \<and> gate_nn (pool demo_net) = mlp_gate demo_net \<and>
   (\<exists>e1 e2 w1 w2 y1 y2 hg1 hg2.
       Embedding_forward (embed demo_net) [0, 1] = Some e1 \<and>
       Embedding_forward (embed demo_net) [1] = Some e2 \<and>
       edge_weights demo_net (Some [0, 3, 19]) (Some [7]) = Some (w1, w2) \<and>
       (layer_step (gmnlayer demo_net) demo_edges [(0, 0)] w1 w2 ^^ 2)
          (Some (squeeze1 e1, squeeze1 e2)) = Some (y1, y2) \<and>
       size0 y1 = 2 \<and> size0 y2 = 1 \<and>
       GlobalAttention_forward (pool demo_net) y1 (zeros_long (size0 y1)) = Some hg1 \<and>
       GlobalAttention_forward (pool demo_net) y2 (zeros_long (size0 y2)) = Some hg2 \<and>
       GMNnet_forward demo_net demo_data = Some (hg1, hg2) \<and>
       cols hg1 = 1 \<and> cols hg2 = 1 \<and> size0 hg1 = 1 \<and> size0 hg2 = 1 \<and>
       wf_tensor hg1 \<and> wf_tensor hg2)"
  using GMNnet_forward_stages [OF demo_data_valid(1) [unfolded demo_data_def],
      of 1 2 demo_net_weights, folded demo_net_def, folded demo_data_def] demo_net_wf
  apply (elim exE conjE)
  subgoal for e1 e2 w1 w2 y1 y2 hg1 hg2
    apply (intro conjI)
      apply assumption
     apply assumption
    apply (rule exI [of _ e1], rule exI [of _ e2], rule exI [of _ w1], rule exI [of _ w2])
    apply (rule exI [of _ y1], rule exI [of _ y2], rule exI [of _ hg1], rule exI [of _ hg2])
    apply simp
    done
  done

text \<open>
  The claim as stated fails for a graph without nodes: of the pair that is returned for
  the example whose first graph is empty, the first tensor has no row, the second one.
\<close>

theorem empty_graph_pooled_to_zero_rows:
  "map_option (map_prod size0 size0) (GMNnet_forward demo_net demo_data_empty) = Some (0, 1)"
proof -
  from GMNnet_forward_chain [OF demo_data_valid(2) [unfolded demo_data_empty_def],
      of 1 2 demo_net_weights, folded demo_net_def, folded demo_data_empty_def]
  obtain hg1 hg2 where fw: "GMNnet_forward demo_net demo_data_empty = Some (hg1, hg2)"
    and sh: "size0 hg1 = (if ([]::int list) = [] then 0 else 1)"
      "size0 hg2 = (if [1::int] = [] then 0 else 1)"
    by blast
  with fw show ?thesis by simp
qed

text \<open>
  Claim C8, as amended. On well-formed input whose two graphs have at least one node each,
  \<^verbatim>\<open>GMNnet.forward\<close> runs embedding lookup, then the loop of message passing, then the
  pooling with a batch vector of zeros, and both results have shape \<open>[1, embedding_dim]\<close>,
  whatever the numbers of nodes \<open>N1, N2 \<ge> 1\<close>.
\<close>

theorem GMNnet_forward_output_shape:
  fixes vocablen d n :: nat and W :: GMNnet_weights
  assumes "valid_gmn_data vocablen (x1, x2, edge_index1, edge_index2, edge_attr1, edge_attr2)"
    and "wf_GMNnet (GMNnet_init vocablen d n W)"
    and "x1 \<noteq> []" and "x2 \<noteq> []"
  defines "M \<equiv> GMNnet_init vocablen d n W"
  shows "\<exists>e1 e2 w1 w2 y1 y2 hg1 hg2.
     Embedding_forward (embed M) x1 = Some e1 \<and>
     Embedding_forward (embed M) x2 = Some e2 \<and>
     edge_weights M edge_attr1 edge_attr2 = Some (w1, w2) \<and>
     gmn_loop n (gmnlayer M) edge_index1 edge_index2 w1 w2 (squeeze1 e1, squeeze1 e2) =
       Some (y1, y2) \<and>
     size0 y1 = length x1 \<and> size0 y2 = length x2 \<and>
     GlobalAttention_forward (pool M) y1 (zeros_long (size0 y1)) = Some hg1 \<and>
     GlobalAttention_forward (pool M) y2 (zeros_long (size0 y2)) = Some hg2 \<and>
     GMNnet_forward M (x1, x2, edge_index1, edge_index2, edge_attr1, edge_attr2) =
       Some (hg1, hg2) \<and>
     size0 hg1 = 1 \<and> cols hg1 = d \<and> wf_tensor hg1 \<and>
     size0 hg2 = 1 \<and> cols hg2 = d \<and> wf_tensor hg2"
  using GMNnet_forward_chain [OF assms(1), of d n W] assms(2-4)
  unfolding M_def
  apply (elim exE conjE)
  subgoal for e1 e2 w1 w2 y1 y2 hg1 hg2
    apply (rule exI [of _ e1], rule exI [of _ e2], rule exI [of _ w1], rule exI [of _ w2])
    apply (rule exI [of _ y1], rule exI [of _ y2], rule exI [of _ hg1], rule exI [of _ hg2])
    apply simp
    done
  done

theorem GMNnet_forward_output_shape_witness:
  "\<exists>hg1 hg2. GMNnet_forward demo_net demo_data = Some (hg1, hg2) \<and>
     size0 hg1 = 1 \<and> cols hg1 = 1 \<and> wf_tensor hg1 \<and>
     size0 hg2 = 1 \<and> cols hg2 = 1 \<and> wf_tensor hg2"
proof -
  have ne: "[0, 1] \<noteq> ([]::int list)" "[1] \<noteq> ([]::int list)" by simp_all
  show ?thesis
    using GMNnet_forward_output_shape [OF demo_data_valid(1) [unfolded demo_data_def]
        demo_net_wf [unfolded demo_net_def] ne, folded demo_net_def, folded demo_data_def]
    apply (elim exE conjE)
    subgoal for e1 e2 w1 w2 y1 y2 hg1 hg2
      apply (rule exI [of _ hg1], rule exI [of _ hg2])
      apply simp
      done
    done
qed

text \<open>
  The claim as stated fails for a graph without nodes: its pooled result has shape
  \<open>[0, embedding_dim]\<close>, not \<open>[1, embedding_dim]\<close>.
\<close>

theorem empty_graph_pools_to_no_row:
  "map_option fst (GMNnet_forward demo_net demo_data_empty) = Some demo_empty"
proof -
  from GMNnet_forward_chain [OF demo_data_valid(2) [unfolded demo_data_empty_def],
      of 1 2 demo_net_weights, folded demo_net_def, folded demo_data_empty_def]
  obtain hg1 hg2 where fw: "GMNnet_forward demo_net demo_data_empty = Some (hg1, hg2)"
    and sh: "cols hg1 = 1" "size0 hg1 = (if ([]::int list) = [] then 0 else 1)"
    by blast
  from sh have "hg1 = demo_empty"
    by (simp add: demo_empty_def size0_def tensor.equality)
  with fw show ?thesis by simp
qed

section \<open>Properties of GGNN\<close>

lemma GGNN_init_fields:
  "num_embeddings (ggnn_embed (GGNN_init v d n W)) = v"
  "embedding_dim (ggnn_embed (GGNN_init v d n W)) = d"
  "num_embeddings (ggnn_edge_embed (GGNN_init v d n W)) = 20"
  "ggc_out_channels (ggnnlayer (GGNN_init v d n W)) = d"
  "ggc_num_layers (ggnnlayer (GGNN_init v d n W)) = n"
  "input_size (rnn (ggnnlayer (GGNN_init v d n W))) = d"
  "hidden_size (rnn (ggnnlayer (GGNN_init v d n W))) = d"
  "in_features (ggnn_mlp_gate (GGNN_init v d n W)) = d"
  "out_features (ggnn_mlp_gate (GGNN_init v d n W)) = 1"
  "gate_nn (ggnn_pool (GGNN_init v d n W)) = ggnn_mlp_gate (GGNN_init v d n W)"
  by (simp_all add: GGNN_init_def Let_def)

lemma GGNN_forward_ignores_edge_attr:
  assumes "valid_edge_attr edge_attr" and "num_embeddings (ggnn_edge_embed M) = 20"
  shows "GGNN_forward M (x, edge_index, edge_attr) = GGNN_forward M (x, edge_index, None)"
proof (cases edge_attr)
  case None
  then show ?thesis by simp
next
  case (Some a)
  with assms obtain e where "Embedding_forward (ggnn_edge_embed M) a = Some e"
    using Embedding_forward_value [of a "ggnn_edge_embed M"] by (simp add: valid_edge_attr_def)
  with Some show ?thesis by (simp add: GGNN_forward_def)
qed

text \<open>
  Claim C7. The result of \<^verbatim>\<open>GGNN.forward\<close> does not depend on \<^verbatim>\<open>edge_attr\<close>: two
  inputs that differ only there, each \<^verbatim>\<open>None\<close> or with all entries in \<open>[0, 20)\<close>, give
  the same result, the edge weight being computed and never used.
\<close>

theorem GGNN_forward_independent_of_edge_attr:
  assumes "valid_edge_attr edge_attr" and "valid_edge_attr edge_attr'"
  shows "GGNN_forward (GGNN_init vocablen d n W) (x, edge_index, edge_attr) =
         GGNN_forward (GGNN_init vocablen d n W) (x, edge_index, edge_attr')"
  using GGNN_forward_ignores_edge_attr [OF assms(1), of "GGNN_init vocablen d n W" x edge_index]
    GGNN_forward_ignores_edge_attr [OF assms(2), of "GGNN_init vocablen d n W" x edge_index]
  by (simp add: GGNN_init_fields)

lemma ggc_propagate_ok:
  assumes "valid_edges ei (size0 m)"
  shows "\<exists>a. ggc_propagate ei m = Some a \<and> cols a = cols m \<and> size0 a = size0 m"
proof -
  let ?xj = "\<lparr>cols = cols m, rws = map (\<lambda>k. rws m ! nat k) (edge_row ei 0)\<rparr>"
  have sel: "index_select m 0 (edge_row ei 0) = Some ?xj"
    using valid_edges_rows(1) [OF assms] by (simp add: index_select_def)
  have "length (edge_row ei 1) = size0 ?xj" by (simp add: size0_def edge_row_def)
  then obtain a where "scatter_sum ?xj (edge_row ei 1) (size0 m) = Some a"
    "cols a = cols m" "size0 a = size0 m"
    using valid_edges_rows(2) [OF assms] by (simp add: scatter_sum_def size0_def)
  with sel show ?thesis by (simp add: ggc_propagate_def)
qed

lemma ggc_loop_ok:
  assumes "list_all (\<lambda>i. i < length (ggc_weight C)) steps"
    and "list_all (\<lambda>w. size0 w = d \<and> cols w = d) (ggc_weight C)"
    and "input_size (rnn C) = d" "hidden_size (rnn C) = d"
    and "cols x = d" "valid_edges ei (size0 x)"
  shows "\<exists>y. ggc_loop C ei steps x = Some y \<and> cols y = d \<and> size0 y = size0 x"
  using assms
proof (induction steps arbitrary: x)
  case Nil
  then show ?case by simp
next
  case (Cons i steps)
  let ?w = "ggc_weight C ! i"
  have i: "i < length (ggc_weight C)" and rest: "list_all (\<lambda>i. i < length (ggc_weight C)) steps"
    using Cons.prems(1) by simp_all
  have w: "size0 ?w = d" "cols ?w = d"
    using i Cons.prems(2) by (simp_all add: list_all_length)
  obtain m where m: "mm x ?w = Some m" "cols m = d" "size0 m = size0 x"
    using w Cons.prems(5) by (simp add: mm_def size0_def)
  have "valid_edges ei (size0 m)" using Cons.prems(6) m(3) by simp
  from ggc_propagate_ok [OF this]
  obtain a where a: "ggc_propagate ei m = Some a" "cols a = cols m" "size0 a = size0 m"
    by blast
  obtain x' where x': "GRUCell_forward (rnn C) a x = Some x'" "cols x' = d" "size0 x' = size0 x"
    using GRUCell_forward_value [of a "rnn C" x] a m Cons.prems(3,4,5)
    by (simp add: size0_def)
  have "valid_edges ei (size0 x')" using Cons.prems(6) x'(3) by simp
  from Cons.IH [OF rest Cons.prems(2,3,4) x'(2) this]
  obtain y where "ggc_loop C ei steps x' = Some y" "cols y = d" "size0 y = size0 x'"
    by blast
  then show ?case using i m(1) a(1) x'(1,3) by simp
qed

lemma demo_ggnn_wf: "wf_GatedGraphConv (ggnnlayer demo_ggnn)"
  by (simp add: wf_GatedGraphConv_def demo_ggnn_def GGNN_init_def demo_ggnn_weights_def Let_def
      size0_def)

lemma demo_ggnn_data_valid:
  "valid_ggnn_data 2 ([0, 1], demo_edges, Some [0, 3, 19])"
  "valid_ggnn_data 2 ([], [], None)"
  by (simp_all add: valid_ggnn_data_def valid_indices_def valid_edges_def demo_edges_def
      valid_edge_attr_def)

lemma GGNN_forward_chain:
  fixes vocablen d n :: nat and W :: GGNN_weights
  assumes "valid_ggnn_data vocablen (x, edge_index, edge_attr)"
    and "wf_GatedGraphConv (ggnnlayer (GGNN_init vocablen d n W))"
  defines "M \<equiv> GGNN_init vocablen d n W"
  shows "\<exists>e y hg.
       Embedding_forward (ggnn_embed M) x = Some e \<and>
       ggc_loop (ggnnlayer M) edge_index [0..<n] (squeeze1 e) = Some y \<and>
       GatedGraphConv_forward (ggnnlayer M) (squeeze1 e) edge_index = Some y \<and>
       size0 y = length x \<and>
       GlobalAttention_forward (ggnn_pool M) y (zeros_long (size0 y)) = Some hg \<and>
       GGNN_forward M (x, edge_index, edge_attr) = Some hg \<and>
       cols hg = d \<and> size0 hg = (if x = [] then 0 else 1)"
proof -
  from assms(1) have vx: "valid_indices x vocablen" and ve: "valid_edges edge_index (length x)"
    and va: "valid_edge_attr edge_attr"
    by (simp_all add: valid_ggnn_data_def)
  let ?C = "ggnnlayer M"
  obtain e where e: "Embedding_forward (ggnn_embed M) x = Some e"
    using Embedding_forward_value [of x "ggnn_embed M"] vx by (simp add: M_def GGNN_init_fields)
  note s = squeeze1_embedding [OF e]
  have c: "cols (squeeze1 e) = d" using s(1) by (simp add: M_def GGNN_init_fields)
  have ve': "valid_edges edge_index (size0 (squeeze1 e))" using ve s(2) by simp
  have wfC: "length (ggc_weight ?C) = n"
      "list_all (\<lambda>w. size0 w = d \<and> cols w = d) (ggc_weight ?C)"
    using assms(2) by (simp_all add: wf_GatedGraphConv_def M_def GGNN_init_fields)
  have steps: "list_all (\<lambda>i. i < length (ggc_weight ?C)) [0..<n]"
    using wfC(1) by (simp add: list_all_iff)
  have r: "input_size (rnn ?C) = d" "hidden_size (rnn ?C) = d"
    by (simp_all add: M_def GGNN_init_fields)
  from ggc_loop_ok [OF steps wfC(2) r c ve']
  obtain y where y: "ggc_loop ?C edge_index [0..<n] (squeeze1 e) = Some y"
    "cols y = d" "size0 y = size0 (squeeze1 e)"
    by blast
  have oc: "ggc_out_channels ?C = d" "ggc_num_layers ?C = n"
    by (simp_all add: M_def GGNN_init_fields)
  have conv: "GatedGraphConv_forward ?C (squeeze1 e) edge_index = Some y"
    using y(1) c oc by (simp add: GatedGraphConv_forward_def)
  have g: "cols y = in_features (gate_nn (ggnn_pool M))" "out_features (gate_nn (ggnn_pool M)) = 1"
    using y(2) by (simp_all add: M_def GGNN_init_fields)
  from pool_single_graph [OF g]
  obtain hg where p: "GlobalAttention_forward (ggnn_pool M) y (zeros_long (size0 y)) = Some hg"
    and h: "cols hg = cols y" "size0 hg = (if size0 y = 0 then 0 else 1)"
    by blast
  have "GGNN_forward M (x, edge_index, None) = Some hg"
    by (simp add: GGNN_forward_def e conv p)
  moreover have "GGNN_forward M (x, edge_index, edge_attr) = GGNN_forward M (x, edge_index, None)"
    by (rule GGNN_forward_ignores_edge_attr [OF va]) (simp add: M_def GGNN_init_fields)
  ultimately have fw: "GGNN_forward M (x, edge_index, edge_attr) = Some hg" by simp
  have sz: "size0 y = length x" using y(3) s(2) by simp
  have sh: "cols hg = d" "size0 hg = (if x = [] then 0 else 1)"
    using h y(2) sz by simp_all
  show ?thesis
    using e y(1) conv sz p fw sh by blast
qed

text \<open>
  Claim C6, as amended. On well-formed input \<^verbatim>\<open>GGNN.forward\<close> embeds the node tokens,
  applies the gated graph convolution, which was constructed with \<open>n\<close> propagation steps
  and runs its \<open>n\<close> steps, to the embedded nodes, pools the result with the gated attention
  pooling over the single graph, and returns the one pooled tensor: a single vector of
  \<open>embedding_dim\<close> entries when the graph has at least one node, and a tensor without rows
  when it has none.
\<close>

theorem GGNN_forward_stages:
  fixes vocablen d n :: nat and W :: GGNN_weights
  assumes "valid_ggnn_data vocablen (x, edge_index, edge_attr)"
    and "wf_GatedGraphConv (ggnnlayer (GGNN_init vocablen d n W))"
  defines "M \<equiv> GGNN_init vocablen d n W"
  shows "ggc_num_layers (ggnnlayer M) = n \<and>
    (\<exists>e y hg.
       Embedding_forward (ggnn_embed M) x = Some e \<and>
       ggc_loop (ggnnlayer M) edge_index [0..<n] (squeeze1 e) = Some y \<and>
       GatedGraphConv_forward (ggnnlayer M) (squeeze1 e) edge_index = Some y \<and>
       size0 y = length x \<and>
       GlobalAttention_forward (ggnn_pool M) y (zeros_long (size0 y)) = Some hg \<and>
       GGNN_forward M (x, edge_index, edge_attr) = Some hg \<and>
       cols hg = d \<and> size0 hg = (if x = [] then 0 else 1))"
  unfolding M_def
  using GGNN_forward_chain [OF assms(1,2)] by (simp add: GGNN_init_fields)

theorem GGNN_forward_stages_witness:
  "ggc_num_layers (ggnnlayer demo_ggnn) = 2 \<and>
   (\<exists>e y hg.
       Embedding_forward (ggnn_embed demo_ggnn) [0, 1] = Some e \<and>
       ggc_loop (ggnnlayer demo_ggnn) demo_edges [0..<2] (squeeze1 e) = Some y \<and>
       GatedGraphConv_forward (ggnnlayer demo_ggnn) (squeeze1 e) demo_edges = Some y \<and>
       size0 y = 2 \<and>
       GlobalAttention_forward (ggnn_pool demo_ggnn) y (zeros_long (size0 y)) = Some hg \<and>
       GGNN_forward demo_ggnn ([0, 1], demo_edges, Some [0, 3, 19]) = Some hg \<and>
       cols hg = 1 \<and> size0 hg = 1)"
  using GGNN_forward_stages [OF demo_ggnn_data_valid(1) demo_ggnn_wf [unfolded demo_ggnn_def],
      folded demo_ggnn_def]
  apply (elim exE conjE)
  subgoal for e y hg
    apply (rule conjI)
     apply assumption
    apply (rule exI [of _ e], rule exI [of _ y], rule exI [of _ hg])
    apply simp
    done
  done

text \<open>
  The claim as stated fails for a graph without nodes: what is returned for it has no row,
  so it is no vector.
\<close>

theorem empty_graph_GGNN_returns_no_row:
  "map_option size0 (GGNN_forward demo_ggnn ([], [], None)) = Some 0"
proof -
  from GGNN_forward_chain [OF demo_ggnn_data_valid(2) demo_ggnn_wf [unfolded demo_ggnn_def],
      folded demo_ggnn_def]
  obtain hg where "GGNN_forward demo_ggnn ([], [], None) = Some hg"
    and "size0 hg = (if ([]::int list) = [] then 0 else 1)"
    by blast
  then show ?thesis by simp
qed

theorem GGNN_forward_independent_of_edge_attr_witness:
  "GGNN_forward demo_ggnn ([0, 1], demo_edges, None) =
   GGNN_forward demo_ggnn ([0, 1], demo_edges, Some [0, 3, 19]) \<and>
   GGNN_forward demo_ggnn ([0, 1], demo_edges, Some [4, 4, 4]) =
   GGNN_forward demo_ggnn ([0, 1], demo_edges, Some [0, 3, 19])"
proof -
  have v: "valid_edge_attr None" "valid_edge_attr (Some [0, 3, 19])"
      "valid_edge_attr (Some [4, 4, 4])"
    by (simp_all add: valid_edge_attr_def valid_indices_def)
  show ?thesis
    using GGNN_forward_independent_of_edge_attr [OF v(1) v(2), of 2 1 2 demo_ggnn_weights
        "[0, 1]" demo_edges]
      GGNN_forward_independent_of_edge_attr [OF v(3) v(2), of 2 1 2 demo_ggnn_weights
        "[0, 1]" demo_edges]
    by (simp add: demo_ggnn_def)
qed

end
